theory Spec2Isabelle
  imports Main "HOL-Library.AList" "HOL-Library.Multiset"
begin

section \<open>Data model\<close>

text \<open>
  Go strings and byte streams are byte sequences: \<open>string\<close>. A Go \<open>error\<close> coming out of
  a library call (multipart writer, pipe, HTTP client, JSON decoder) is opaque to this
  package; it is represented by its message.
\<close>

type_synonym bytes = string
type_synonym liberr = string

text \<open>
  \<open>url.Values\<close> is \<open>map[string][]string\<close>: an association list with distinct keys.
  \<open>Values_Set\<close> replaces the values of a key, \<open>Values_Add\<close> appends one value to them.
\<close>

type_synonym Values = "(string \<times> string list) list"

definition Values_Set :: "string \<Rightarrow> string \<Rightarrow> Values \<Rightarrow> Values" where
  "Values_Set k v ps = AList.update k [v] ps"

definition Values_Add :: "string \<Rightarrow> string \<Rightarrow> Values \<Rightarrow> Values" where
  "Values_Add k v ps =
     AList.update k ((case map_of ps k of None \<Rightarrow> [] | Some vs \<Rightarrow> vs) @ [v]) ps"

text \<open>
  Modelled from the spec: \<open>appendNotEmpty\<close> is defined in a file of the package that is
  not among the sources. The spec has the service token "appended as a field"; the name
  and the call sites say that the value is appended under the key unless it is empty.
\<close>

definition appendNotEmpty :: "string \<Rightarrow> string \<Rightarrow> Values \<Rightarrow> Values" where
  "appendNotEmpty key val params = (if val \<noteq> [] then Values_Add key val params else params)"

text \<open>\<open>strings.Join\<close>.\<close>

fun Join :: "string list \<Rightarrow> string \<Rightarrow> string" where
  "Join [] sep = []"
| "Join [x] sep = x"
| "Join (x # y # ys) sep = x @ sep @ Join (y # ys) sep"

text \<open>\<open>strconv.Itoa\<close> and \<open>strconv.FormatBool\<close>.\<close>

fun digits :: "nat \<Rightarrow> string" where
  "digits n =
     (if n < 10 then [''0123456789'' ! n]
      else digits (n div 10) @ [''0123456789'' ! (n mod 10)])"

definition Itoa :: "int \<Rightarrow> string" where
  "Itoa i = (if i < 0 then CHR ''-'' # digits (nat (- i)) else digits (nat i))"

definition FormatBool :: "bool \<Rightarrow> string" where
  "FormatBool b = (if b then ''true'' else ''false'')"

text \<open>
  Modelled from the spec: the response envelope \<open>slackResponse\<close> and the \<open>Response\<close>
  interface are declared outside the sources. The spec describes the envelope as an
  \<open>ok\<close> boolean with an \<open>error\<close> message string, and the response types as exposing an
  "is this response an error" predicate and an error message. Every typed response
  embeds the envelope; \<open>payload\<close> stands for the remaining fields of the typed response.
\<close>

record 'a response =
  resp_ok :: bool
  resp_err :: string
  payload :: 'a

definition IsOK :: "'a response \<Rightarrow> bool" where
  "IsOK r = resp_ok r"

definition Error :: "'a response \<Rightarrow> string" where
  "Error r = resp_err r"

text \<open>The zero value a freshly allocated response struct holds (\<open>&FileUploadResponse{}\<close>).\<close>

definition zero_response :: "'a::default response" where
  "zero_response = \<lparr>resp_ok = False, resp_err = [], payload = default\<rparr>"

text \<open>
  The error values the package returns: an error made by \<open>fmt.Errorf\<close> or handed
  through from a library call, or the decoded response itself (\<open>return sm\<close>).
\<close>

datatype 'a error = GoError string | ResponseError "'a response"

text \<open>The \<open>Error()\<close> method of a returned error.\<close>

fun error_message :: "'a error \<Rightarrow> string" where
  "error_message (GoError m) = m"
| "error_message (ResponseError r) = Error r"

text \<open>A call either returns or panics; an unrecovered panic ends the process.\<close>

datatype 'a outcome = Returned 'a | Panicked string

record slack =
  token :: string
  url :: string

section \<open>Thin wrappers around the generic call\<close>

text \<open>
  \<open>s.do\<close> is not among the sources: it is a parameter, taking the method path, the form
  parameters and the response struct to fill, and returning the error (if any) with the
  struct as it left it.
\<close>

type_synonym 'a do_fun = "string \<Rightarrow> Values \<Rightarrow> 'a response \<Rightarrow> 'a error option \<times> 'a response"

text \<open>
  The shape shared by \<open>ChannelCreate\<close>, \<open>ChannelInfo\<close>, \<open>ChannelList\<close>, \<open>GroupCreate\<close>,
  \<open>GroupInvite\<close>, \<open>GroupList\<close>, \<open>FileList\<close>, \<open>FileInfo\<close> and \<open>FileAddComment\<close>:
  \<^verbatim>\<open>r := &T{}; err := s.do(path, params, r); if err != nil { return nil, err }; return r, nil\<close>.
  The pair returned is (result pointer, error); \<open>None\<close> is \<open>nil\<close>.
\<close>

definition call_do ::
  "'a::default do_fun \<Rightarrow> string \<Rightarrow> Values \<Rightarrow> 'a response option \<times> 'a error option" where
  "call_do do path params =
     (case do path params zero_response of
        (Some err, r) \<Rightarrow> (None, Some err)
      | (None, r) \<Rightarrow> (Some r, None))"

definition ChannelCreate ::
  "'a::default do_fun \<Rightarrow> string \<Rightarrow> 'a response option \<times> 'a error option" where
  "ChannelCreate do name = call_do do ''channels.create'' [(''name'', [name])]"

definition ChannelInfo ::
  "'a::default do_fun \<Rightarrow> string \<Rightarrow> 'a response option \<times> 'a error option" where
  "ChannelInfo do channel = call_do do ''channels.info'' [(''channel'', [channel])]"

definition ChannelList ::
  "'a::default do_fun \<Rightarrow> bool \<Rightarrow> 'a response option \<times> 'a error option" where
  "ChannelList do excludeArchived =
     call_do do ''channels.list''
       (if excludeArchived then Values_Set ''exclude_archived'' ''1'' [] else [])"

definition GroupCreate ::
  "'a::default do_fun \<Rightarrow> string \<Rightarrow> 'a response option \<times> 'a error option" where
  "GroupCreate do name = call_do do ''groups.create'' [(''name'', [name])]"

definition GroupInvite ::
  "'a::default do_fun \<Rightarrow> string \<Rightarrow> string \<Rightarrow> 'a response option \<times> 'a error option" where
  "GroupInvite do channel user =
     call_do do ''groups.invite'' [(''channel'', [channel]), (''user'', [user])]"

definition GroupList ::
  "'a::default do_fun \<Rightarrow> bool \<Rightarrow> 'a response option \<times> 'a error option" where
  "GroupList do excludeArchived =
     call_do do ''groups.list''
       (if excludeArchived then Values_Set ''exclude_archived'' ''1'' [] else [])"

definition ChannelArchive ::
  "'a::default do_fun \<Rightarrow> string \<Rightarrow> 'a response option \<times> 'a error option" where
  "ChannelArchive do channel = call_do do ''channels.archive'' [(''channel'', [channel])]"

definition FileList ::
  "'a::default do_fun \<Rightarrow> string \<Rightarrow> string \<Rightarrow> string \<Rightarrow> string list \<Rightarrow> int \<Rightarrow> int
     \<Rightarrow> 'a response option \<times> 'a error option" where
  "FileList do user tsFrom tsTo types count' page =
     (let params = [];
          params = appendNotEmpty ''user'' user params;
          params = appendNotEmpty ''ts_from'' tsFrom params;
          params = appendNotEmpty ''ts_to'' tsTo params;
          params = appendNotEmpty ''types'' (Join types '','') params;
          params = (if page > 1 then appendNotEmpty ''page'' (Itoa page) params else params);
          params = (if count' > 0 then appendNotEmpty ''count'' (Itoa count') params else params)
      in call_do do ''files.list'' params)"

definition FileInfo ::
  "'a::default do_fun \<Rightarrow> string \<Rightarrow> int \<Rightarrow> int \<Rightarrow> 'a response option \<times> 'a error option" where
  "FileInfo do file count' page =
     (let params = [(''file'', [file])];
          params = (if page > 1 then appendNotEmpty ''page'' (Itoa page) params else params);
          params = (if count' > 0 then appendNotEmpty ''count'' (Itoa count') params else params)
      in call_do do ''files.info'' params)"

definition FileAddComment ::
  "'a::default do_fun \<Rightarrow> string \<Rightarrow> string \<Rightarrow> bool \<Rightarrow> 'a response option \<times> 'a error option" where
  "FileAddComment do file comment setActive =
     call_do do ''files.comments.add''
       [(''file'', [file]), (''comment'', [comment]), (''set_active'', [FormatBool setActive])]"

text \<open>
  \<open>Mark\<close>: \<open>channel[0:1]\<close> is a slice expression on a string; Go panics with
  "slice bounds out of range" when the upper bound exceeds the length.
\<close>

definition slice01 :: "string \<Rightarrow> string outcome" where
  "slice01 channel =
     (if length channel < 1 then Panicked ''slice bounds out of range''
      else Returned (take 1 channel))"

definition Mark :: "'a::default do_fun \<Rightarrow> string \<Rightarrow> string \<Rightarrow> 'a error option outcome" where
  "Mark do channel ts =
     (let r = zero_response;
          params = [(''channel'', [channel]), (''ts'', [ts])];
          path = ''channels.mark''
      in case slice01 channel of
           Panicked msg \<Rightarrow> Panicked msg
         | Returned c \<Rightarrow>
             (let path = (if c = ''G'' then ''groups.mark''
                          else if c = ''D'' then ''im.mark'' else path)
              in case fst (do path params r) of
                   Some err \<Rightarrow> Returned (Some err)
                 | None \<Rightarrow> Returned None))"

section \<open>The streaming upload pipeline\<close>

text \<open>
  The input stream (\<open>io.Reader\<close>): the bytes it delivers, followed by \<open>io.EOF\<close>
  (\<open>None\<close>) or by a read error.
\<close>

record reader =
  contents :: bytes
  read_err :: "liberr option"

text \<open>
  The multipart writer, the pipe, the HTTP client and the JSON decoder are library code.
  The body is kept at the level of the writer's interface: the parts created through it,
  and whether the closing boundary was emitted. The bytes that go into the pipe are given
  further down (\<open>wire\<close>).
\<close>

datatype part = FilePart string string bytes | FieldPart string string

record mbody =
  body_parts :: "part list"
  body_terminated :: bool

record http_request =
  req_method :: string
  req_url :: string
  req_content_type :: string
  req_body :: mbody

record http_response =
  status :: nat
  resp_body :: bytes

text \<open>
  What the producer goroutine does, in order; a library call is recorded with the error
  it returned. \<open>EvSend\<close> is \<open>errChan <- v\<close>, \<open>EvPipeClose\<close> the deferred
  \<open>bodyWriter.Close()\<close>.
\<close>

datatype event =
    EvCreateFormFile string string "liberr option"
  | EvCopy bytes "liberr option"
  | EvWriteField string string "liberr option"
  | EvWriterClose "liberr option"
  | EvSend "liberr option"
  | EvPanic string
  | EvPipeClose

text \<open>
  The environment of one upload: what each library call answers. \<open>copy_write_err\<close> is
  \<open>Some (n, e)\<close> when writing to the file part fails with \<open>e\<close> once \<open>n\<close> bytes went
  through. \<open>range_order\<close> is the order in which \<open>range params\<close> visits the map, which Go
  leaves unspecified. \<open>handleError\<close> is a method of the package that is not among the
  sources. Every library call is taken to return: a write to the pipe or a read of the
  stream that blocks for ever has no place in this model.
\<close>

record 'a env =
  boundary :: string
  create_file_err :: "liberr option"
  copy_write_err :: "(nat \<times> liberr) option"
  field_err :: "string \<Rightarrow> liberr option"
  close_err :: "liberr option"
  range_order :: "Values \<Rightarrow> Values"
  new_request_err :: "string \<Rightarrow> string \<Rightarrow> liberr option"
  client_do :: "http_request \<Rightarrow> liberr + http_response"
  handleError :: "http_response \<Rightarrow> 'a error option"
  json_decode :: "bytes \<Rightarrow> 'a response \<Rightarrow> liberr + 'a response"

definition FormDataContentType :: "string \<Rightarrow> string" where
  "FormDataContentType b = ''multipart/form-data; boundary='' @ b"

text \<open>\<open>io.Copy(part, data)\<close>: the bytes that reached the part, and the error returned.\<close>

definition io_Copy :: "'a env \<Rightarrow> reader \<Rightarrow> bytes \<times> liberr option" where
  "io_Copy env data =
     (case copy_write_err env of
        Some (n, e) \<Rightarrow>
          if n < length (contents data) then (take n (contents data), Some e)
          else (contents data, read_err data)
      | None \<Rightarrow> (contents data, read_err data))"

text \<open>
  The loop \<open>for k, v := range params\<close>. \<open>v[0]\<close> on an empty value list panics
  (index out of range); a failing \<open>WriteField\<close> leaves the loop.
\<close>

datatype loop_exit = Done | Failed liberr | IndexPanic

fun write_fields :: "'a env \<Rightarrow> Values \<Rightarrow> event list \<times> loop_exit" where
  "write_fields env [] = ([], Done)"
| "write_fields env ((k, v) # rest) =
     (case v of
        [] \<Rightarrow> ([], IndexPanic)
      | v0 # vs \<Rightarrow>
          (case field_err env k of
             Some e \<Rightarrow> ([EvWriteField k v0 (Some e)], Failed e)
           | None \<Rightarrow>
               (case write_fields env rest of
                  (evs, ex) \<Rightarrow> (EvWriteField k v0 None # evs, ex))))"

text \<open>
  The producer goroutine. The deferred close of the pipe's write end runs on every way
  out, also while panicking.
\<close>

definition producer :: "'a env \<Rightarrow> string \<Rightarrow> Values \<Rightarrow> reader \<Rightarrow> event list" where
  "producer env filename params data =
     (let deferred = [EvPipeClose] in
      case create_file_err env of
        Some e \<Rightarrow> [EvCreateFormFile ''file'' filename (Some e), EvSend (Some e)] @ deferred
      | None \<Rightarrow>
          (case io_Copy env data of
             (written, cerr) \<Rightarrow>
               (let pre = [EvCreateFormFile ''file'' filename None, EvCopy written cerr] in
                case cerr of
                  Some e \<Rightarrow> pre @ [EvSend (Some e)] @ deferred
                | None \<Rightarrow>
                    (case write_fields env (range_order env params) of
                       (evs, IndexPanic) \<Rightarrow>
                         pre @ evs @ [EvPanic ''index out of range''] @ deferred
                     | (evs, Failed e) \<Rightarrow> pre @ evs @ [EvSend (Some e)] @ deferred
                     | (evs, Done) \<Rightarrow>
                         pre @ evs @ [EvWriterClose (close_err env), EvSend (close_err env)]
                           @ deferred))))"

text \<open>\<open><-errChan\<close>: the value the producer sent, if it sent one.\<close>

fun errChan_recv :: "event list \<Rightarrow> liberr option option" where
  "errChan_recv [] = None"
| "errChan_recv (EvSend v # evs) = Some v"
| "errChan_recv (ev # evs) = errChan_recv evs"

text \<open>The body that went into the pipe: the parts written, in order.\<close>

fun written_parts :: "event list \<Rightarrow> part list" where
  "written_parts [] = []"
| "written_parts (EvCreateFormFile n f None # EvCopy w r # evs) =
     FilePart n f w # written_parts evs"
| "written_parts (EvCreateFormFile n f None # evs) = FilePart n f [] # written_parts evs"
| "written_parts (EvWriteField k v None # evs) = FieldPart k v # written_parts evs"
| "written_parts (ev # evs) = written_parts evs"

definition body_of :: "event list \<Rightarrow> mbody" where
  "body_of evs =
     \<lparr>body_parts = written_parts evs, body_terminated = (EvWriterClose None \<in> set evs)\<rparr>"

text \<open>What the calling thread does with the HTTP library, in order.\<close>

datatype net_event = NewRequest string string | ClientDo http_request

text \<open>
  What one call of \<open>doUpload\<close> leaves behind: the error returned (or the panic), the
  struct \<open>result\<close> points to, the calls into the HTTP library, and the producer's trace.
\<close>

record 'a upload_run =
  ret :: "'a error option outcome"
  result_out :: "'a response option"
  net_log :: "net_event list"
  producer_trace :: "event list"

text \<open>
  \<open>doUpload\<close>. Tracing and dumping only log. When \<open>http.NewRequest\<close> fails the function
  returns before anything reads the pipe, so no producer step completes. A panic of the
  producer goroutine ends the process.
\<close>

definition doUpload ::
  "'a env \<Rightarrow> slack \<Rightarrow> string \<Rightarrow> string \<Rightarrow> Values \<Rightarrow> reader \<Rightarrow> 'a response option
     \<Rightarrow> 'a upload_run" where
  "doUpload env s path filename params0 data result =
     (let params = appendNotEmpty ''token'' (token s) params0;
          fdct = FormDataContentType (boundary env)
      in case new_request_err env ''POST'' (url s @ path) of
           Some err \<Rightarrow>
             \<lparr>ret = Returned (Some (GoError err)), result_out = result,
              net_log = [NewRequest ''POST'' (url s @ path)], producer_trace = []\<rparr>
         | None \<Rightarrow>
             (let tr = producer env filename params data;
                  postReq = \<lparr>req_method = ''POST'', req_url = url s @ path,
                             req_content_type = fdct, req_body = body_of tr\<rparr>;
                  answer = client_do env postReq;
                  fin = (\<lambda>r res. \<lparr>ret = r, result_out = res,
                                    net_log = [NewRequest ''POST'' (url s @ path),
                                               ClientDo postReq],
                                    producer_trace = tr\<rparr>)
              in case errChan_recv tr of
                   None \<Rightarrow> fin (Panicked ''index out of range'') result
                 | Some (Some cerr) \<Rightarrow> fin (Returned (Some (GoError cerr))) result
                 | Some None \<Rightarrow>
                     (case answer of
                        Inl err \<Rightarrow> fin (Returned (Some (GoError err))) result
                      | Inr resp \<Rightarrow>
                          (case handleError env resp of
                             Some err \<Rightarrow> fin (Returned (Some err)) result
                           | None \<Rightarrow>
                               (case result of
                                  None \<Rightarrow> fin (Returned None) None
                                | Some r \<Rightarrow>
                                    (case json_decode env (resp_body resp) r of
                                       Inl err \<Rightarrow> fin (Returned (Some (GoError err))) result
                                     | Inr sm \<Rightarrow>
                                         if \<not> IsOK sm
                                         then fin (Returned (Some (ResponseError sm))) (Some sm)
                                         else fin (Returned None) (Some sm)))))))"

text \<open>
  \<open>Upload\<close>, with its calls into the HTTP library. \<open>r\<close> is the struct
  allocated by \<open>&FileUploadResponse{}\<close>, as \<open>doUpload\<close> left it.
\<close>

definition Upload ::
  "'a::default env \<Rightarrow> slack \<Rightarrow> string \<Rightarrow> string \<Rightarrow> string \<Rightarrow> string \<Rightarrow> string list \<Rightarrow> reader
     \<Rightarrow> ('a response option \<times> 'a error option) outcome \<times> net_event list" where
  "Upload env s title filetype filename initialComment channels data =
     (if filename = []
      then (Returned (None, Some (GoError ''You must specify the filename for the upload'')), [])
      else
        (let params = [];
             params = appendNotEmpty ''title'' title params;
             params = appendNotEmpty ''filetype'' filetype params;
             params = appendNotEmpty ''filename'' filename params;
             params = appendNotEmpty ''initial_comment'' initialComment params;
             params = (if length channels > 0
                       then Values_Set ''channels'' (Join channels '','') params
                       else params);
             run = doUpload env s ''files.upload'' filename params data (Some zero_response);
             r = (case result_out run of Some r' \<Rightarrow> r' | None \<Rightarrow> zero_response)
         in (case ret run of
               Panicked msg \<Rightarrow> Panicked msg
             | Returned (Some err) \<Rightarrow> Returned (None, Some err)
             | Returned None \<Rightarrow> Returned (Some r, None),
             net_log run)))"

section \<open>Reading a body\<close>

text \<open>The values of the form parts of a given name, in order.\<close>

fun field_values :: "string \<Rightarrow> part list \<Rightarrow> string list" where
  "field_values k [] = []"
| "field_values k (FieldPart k' x # ps) =
     (if k' = k then x # field_values k ps else field_values k ps)"
| "field_values k (FilePart n f c # ps) = field_values k ps"

text \<open>The parts of the bodies handed to the HTTP client.\<close>

fun parts_sent :: "net_event list \<Rightarrow> part list" where
  "parts_sent [] = []"
| "parts_sent (ClientDo req # evs) = body_parts (req_body req) @ parts_sent evs"
| "parts_sent (NewRequest m u # evs) = parts_sent evs"

text \<open>
  The specification side of \<open>Upload\<close>: the form parts the wire contract lists, each
  present when its value is not empty.
\<close>

definition scalar_part :: "string \<Rightarrow> string \<Rightarrow> part list" where
  "scalar_part k v = (if v = [] then [] else [FieldPart k v])"

definition expected_fields ::
  "string \<Rightarrow> string \<Rightarrow> string \<Rightarrow> string \<Rightarrow> string \<Rightarrow> string list \<Rightarrow> part list" where
  "expected_fields tok title filetype filename initialComment channels =
     scalar_part ''title'' title @ scalar_part ''filetype'' filetype
     @ scalar_part ''filename'' filename @ scalar_part ''initial_comment'' initialComment
     @ (if channels = [] then [] else [FieldPart ''channels'' (Join channels '','')])
     @ scalar_part ''token'' tok"

text \<open>The entry \<open>appendNotEmpty\<close> adds to a map that has no such key yet.\<close>

definition entry_unless_empty :: "string \<Rightarrow> string \<Rightarrow> Values" where
  "entry_unless_empty k v = (if v = [] then [] else [(k, [v])])"

section \<open>The bytes on the wire\<close>

text \<open>
  What the multipart writer (\<open>mime/multipart\<close>, library code) writes into the pipe, byte
  for byte, as the package documents it. \<open>escapeQuotes\<close> is the library's escaping of a
  name inside the quotes of a header parameter: a backslash before a backslash and before
  a double quote, CR and LF percent-encoded.
\<close>

abbreviation CR :: char where "CR \<equiv> CHR 0x0D"
abbreviation LF :: char where "LF \<equiv> CHR 0x0A"
abbreviation DQ :: char where "DQ \<equiv> CHR 0x22"
abbreviation BS :: char where "BS \<equiv> CHR 0x5C"
abbreviation CRLF :: string where "CRLF \<equiv> [CR, LF]"

fun escapeQuotes :: "string \<Rightarrow> string" where
  "escapeQuotes [] = []"
| "escapeQuotes (c # cs) =
     (if c = BS then [BS, BS]
      else if c = DQ then [BS, DQ]
      else if c = LF then ''%0A''
      else if c = CR then ''%0D''
      else [c]) @ escapeQuotes cs"

text \<open>
  The \<open>Content-Disposition\<close> header lines of \<open>CreateFormFile\<close> and of
  \<open>CreateFormField\<close> (which \<open>WriteField\<close> calls).
\<close>

definition file_disposition :: "string \<Rightarrow> string \<Rightarrow> bytes" where
  "file_disposition fieldname filename =
     ''Content-Disposition: form-data; name='' @ [DQ] @ escapeQuotes fieldname @ [DQ]
       @ ''; filename='' @ [DQ] @ escapeQuotes filename @ [DQ]"

definition field_disposition :: "string \<Rightarrow> bytes" where
  "field_disposition fieldname =
     ''Content-Disposition: form-data; name='' @ [DQ] @ escapeQuotes fieldname @ [DQ]"

text \<open>
  \<open>CreatePart\<close>: the boundary line, preceded by CRLF unless this is the first part, the
  header lines in the order of their keys, and the empty line. \<open>Writer.Close\<close>: the
  closing boundary line.
\<close>

definition CreatePart :: "string \<Rightarrow> bool \<Rightarrow> bytes list \<Rightarrow> bytes" where
  "CreatePart b lastpart header =
     (if lastpart then CRLF else []) @ ''--'' @ b @ CRLF
     @ concat (map (\<lambda>l. l @ CRLF) header) @ CRLF"

definition Writer_Close :: "string \<Rightarrow> bytes" where
  "Writer_Close b = CRLF @ ''--'' @ b @ ''--'' @ CRLF"

text \<open>
  The bytes a producer trace puts into the pipe; \<open>lastpart\<close> says that a part was
  created before. \<open>CreateFormFile\<close> adds the content type of a file part. A call that
  failed is taken to have written nothing.
\<close>

fun wire :: "string \<Rightarrow> bool \<Rightarrow> event list \<Rightarrow> bytes" where
  "wire b lastpart [] = []"
| "wire b lastpart (EvCreateFormFile n f None # evs) =
     CreatePart b lastpart [file_disposition n f, ''Content-Type: application/octet-stream'']
     @ wire b True evs"
| "wire b lastpart (EvCopy w r # evs) = w @ wire b lastpart evs"
| "wire b lastpart (EvWriteField k v None # evs) =
     CreatePart b lastpart [field_disposition k] @ v @ wire b True evs"
| "wire b lastpart (EvWriterClose None # evs) = Writer_Close b @ wire b lastpart evs"
| "wire b lastpart (ev # evs) = wire b lastpart evs"

section \<open>Reading a multipart/form-data document\<close>

text \<open>
  The specification side: what it is for a sequence of bytes to be a syntactically valid
  multipart/form-data document under a given boundary (RFC 2046, section 5.1.1, and RFC
  7578), and which parts it then holds. \<open>find_sub d s\<close> splits \<open>s\<close> at the first
  occurrence of \<open>d\<close>.
\<close>

fun find_sub :: "bytes \<Rightarrow> bytes \<Rightarrow> (bytes \<times> bytes) option" where
  "find_sub d [] = (if d = [] then Some ([], []) else None)"
| "find_sub d (c # cs) =
     (if take (length d) (c # cs) = d then Some ([], drop (length d) (c # cs))
      else (case find_sub d cs of None \<Rightarrow> None | Some (a, r) \<Rightarrow> Some (c # a, r)))"

text \<open>
  The parts after the first boundary line: a header block up to the empty line, the
  content up to the next delimiter (CRLF, two dashes, the boundary), then either two
  dashes and CRLF, which end the document, or CRLF and a further part.
\<close>

function read_parts :: "string \<Rightarrow> bytes \<Rightarrow> (bytes \<times> bytes) list option" where
  "read_parts b s =
     (case find_sub (CRLF @ CRLF) s of
        None \<Rightarrow> None
      | Some (header, r1) \<Rightarrow>
          (case find_sub (CRLF @ ''--'' @ b) r1 of
             None \<Rightarrow> None
           | Some (content, r2) \<Rightarrow>
               if r2 = ''--'' @ CRLF then Some [(header, content)]
               else if take 2 r2 = CRLF
               then (case read_parts b (drop 2 r2) of
                       None \<Rightarrow> None
                     | Some ps \<Rightarrow> Some ((header, content) # ps))
               else None))"
  by pat_completeness auto
termination
proof (relation "measure (\<lambda>(b, s). length s)")
  show "wf (measure (\<lambda>(b, s). length s))" by simp
next
  fix b s x2 header r1 x2a content r2
  assume f1: "find_sub (CRLF @ CRLF) s = Some x2" and x2: "(header, r1) = x2"
    and f2: "find_sub (CRLF @ ''--'' @ b) r1 = Some x2a" and x2a: "(content, r2) = x2a"
  have len: "length r + length d \<le> length t"
    if "find_sub d t = Some (a, r)" for d t a r
    using that
  proof (induction t arbitrary: a)
    case Nil
    then show ?case by (simp split: if_splits)
  next
    case (Cons c cs)
    show ?case
    proof (cases "take (length d) (c # cs) = d")
      case True
      then have "r = drop (length d) (c # cs)" using Cons.prems by simp
      moreover have "length d \<le> length (c # cs)"
        using True by (metis length_take min.cobounded1 min.cobounded2)
      ultimately show ?thesis by simp
    next
      case False
      then obtain a' where "find_sub d cs = Some (a', r)"
        using Cons.prems by (auto split: option.splits)
      then have "length r + length d \<le> length cs" by (rule Cons.IH)
      then show ?thesis by simp
    qed
  qed
  have "length r1 + length (CRLF @ CRLF) \<le> length s"
    using len f1 x2 by metis
  moreover have "length r2 + length (CRLF @ ''--'' @ b) \<le> length r1"
    using len f2 x2a by metis
  ultimately show "((b, drop 2 r2), b, s) \<in> measure (\<lambda>(b, s). length s)"
    by simp
qed

declare read_parts.simps [simp del]

text \<open>
  A quoted string up to its closing quote, a backslash quoting the byte after it; what
  follows the closing quote is returned as well.
\<close>

fun read_quoted :: "bytes \<Rightarrow> (string \<times> bytes) option" where
  "read_quoted [] = None"
| "read_quoted (c # cs) =
     (if c = DQ then Some ([], cs)
      else if c = BS then
        (case cs of
           [] \<Rightarrow> None
         | e # es \<Rightarrow> (case read_quoted es of None \<Rightarrow> None | Some (s, r) \<Rightarrow> Some (e # s, r)))
      else (case read_quoted cs of None \<Rightarrow> None | Some (s, r) \<Rightarrow> Some (c # s, r)))"

definition strip_prefix :: "bytes \<Rightarrow> bytes \<Rightarrow> bytes option" where
  "strip_prefix p s = (if take (length p) s = p then Some (drop (length p) s) else None)"

text \<open>
  The \<open>Content-Disposition\<close> line of a form-data part: the name, and the filename when
  there is one.
\<close>

definition read_disposition :: "bytes \<Rightarrow> (string \<times> string option) option" where
  "read_disposition line =
     (case strip_prefix (''Content-Disposition: form-data; name='' @ [DQ]) line of
        None \<Rightarrow> None
      | Some r \<Rightarrow>
          (case read_quoted r of
             None \<Rightarrow> None
           | Some (name, r') \<Rightarrow>
               if r' = [] then Some (name, None)
               else (case strip_prefix (''; filename='' @ [DQ]) r' of
                       None \<Rightarrow> None
                     | Some r'' \<Rightarrow>
                         (case read_quoted r'' of
                            None \<Rightarrow> None
                          | Some (filename, r''') \<Rightarrow>
                              if r''' = [] then Some (name, Some filename) else None))))"

text \<open>
  A part is a file part when its disposition, the first line of its header block,
  carries a filename, and a form part otherwise.
\<close>

definition read_part :: "bytes \<times> bytes \<Rightarrow> part option" where
  "read_part hc =
     (case hc of (header, content) \<Rightarrow>
        (case read_disposition
                (case find_sub CRLF header of None \<Rightarrow> header | Some (l, ls) \<Rightarrow> l) of
           None \<Rightarrow> None
         | Some (name, None) \<Rightarrow> Some (FieldPart name content)
         | Some (name, Some filename) \<Rightarrow> Some (FilePart name filename content)))"

text \<open>
  The document: the first boundary line, the parts, the closing boundary line, and each
  part readable. \<open>None\<close> when the bytes are no such document.
\<close>

definition read_multipart :: "string \<Rightarrow> bytes \<Rightarrow> part list option" where
  "read_multipart b doc =
     (case strip_prefix (''--'' @ b @ CRLF) doc of
        None \<Rightarrow> None
      | Some s \<Rightarrow>
          (case read_parts b s of
             None \<Rightarrow> None
           | Some raw \<Rightarrow> those (map read_part raw)))"

text \<open>
  The delimiter occurs in \<open>c\<close> followed by the delimiter only at the end: not inside
  \<open>c\<close>, and not across its end.
\<close>

definition delimiter_free :: "string \<Rightarrow> bytes \<Rightarrow> bool" where
  "delimiter_free b c =
     (find_sub (CRLF @ ''--'' @ b) (c @ CRLF @ ''--'' @ b) = Some (c, []))"


section \<open>The error channel\<close>

text \<open>The values the producer sent on \<open>errChan\<close>, in order.\<close>

fun sent_values :: "event list \<Rightarrow> liberr option list" where
  "sent_values [] = []"
| "sent_values (EvSend v # evs) = v # sent_values evs"
| "sent_values (ev # evs) = sent_values evs"

text \<open>
  The error a library call of the producer returned, and the property that a failed call
  is followed by the send of its error and the pipe's close and by nothing else.
\<close>

fun failed_with :: "event \<Rightarrow> liberr option" where
  "failed_with (EvCreateFormFile n f r) = r"
| "failed_with (EvCopy w r) = r"
| "failed_with (EvWriteField k v r) = r"
| "failed_with (EvWriterClose r) = r"
| "failed_with ev = None"

fun stops_at_failure :: "event list \<Rightarrow> bool" where
  "stops_at_failure [] = True"
| "stops_at_failure (ev # evs) =
     (case failed_with ev of
        Some e \<Rightarrow> evs = [EvSend (Some e), EvPipeClose]
      | None \<Rightarrow> stops_at_failure evs)"

section \<open>Test doubles\<close>

text \<open>
  An environment in which no library call fails and \<open>range\<close> visits the map in the order
  of the list, around a given transport and a given decoder; \<open>handleError\<close> accepts the
  status codes 200 to 299.
\<close>

definition quiet_env ::
  "(http_request \<Rightarrow> liberr + http_response) \<Rightarrow> (bytes \<Rightarrow> 'a response \<Rightarrow> liberr + 'a response)
     \<Rightarrow> 'a env" where
  "quiet_env transport dec =
     \<lparr>boundary = ''xyz'', create_file_err = None, copy_write_err = None,
      field_err = (\<lambda>k. None), close_err = None, range_order = (\<lambda>ps. ps),
      new_request_err = (\<lambda>m u. None), client_do = transport,
      handleError = (\<lambda>resp. if 200 \<le> status resp \<and> status resp < 300 then None
                              else Some (GoError ''bad status'')),
      json_decode = dec\<rparr>"

text \<open>A transport answering 200 with a fixed body, and a decoder yielding a fixed envelope.\<close>

definition answer_200 :: "bytes \<Rightarrow> http_request \<Rightarrow> liberr + http_response" where
  "answer_200 b req = Inr \<lparr>status = 200, resp_body = b\<rparr>"

definition decode_to :: "'a response \<Rightarrow> bytes \<Rightarrow> 'a response \<Rightarrow> liberr + 'a response" where
  "decode_to sm b r = Inr sm"

definition not_authed :: "unit response" where
  "not_authed = \<lparr>resp_ok = False, resp_err = ''not_authed'', payload = ()\<rparr>"

definition file_ok :: "unit response" where
  "file_ok = \<lparr>resp_ok = True, resp_err = [], payload = ()\<rparr>"

text \<open>A generic call that answers with a fixed error (or none) and leaves the struct alone.\<close>

definition do_answer :: "'a error option \<Rightarrow> 'a do_fun" where
  "do_answer e path params r = (e, r)"

definition api :: slack where
  "api = \<lparr>token = ''xoxp-1'', url = ''https://slack.com/api/''\<rparr>"

definition hello :: reader where
  "hello = \<lparr>contents = ''hello'', read_err = None\<rparr>"

text \<open>A stream that fails after delivering two bytes.\<close>

definition broken_stream :: reader where
  "broken_stream = \<lparr>contents = ''he'', read_err = Some ''unexpected EOF''\<rparr>"

text \<open>
  An environment in which the reader of the pipe goes away after two bytes of the file, a
  stream that holds a delimiter line of the boundary \<open>xyz\<close> followed by the header of
  a form part, and an environment in which \<open>http.NewRequest\<close> rejects a URL that begins
  with a colon, as \<open>url.Parse\<close> does.
\<close>

definition closed_pipe_env :: "unit env" where
  "closed_pipe_env =
     (quiet_env (answer_200 []) (decode_to file_ok))
       \<lparr>copy_write_err := Some (2, ''io: read/write on closed pipe'')\<rparr>"

definition smuggling_stream :: reader where
  "smuggling_stream =
     \<lparr>contents = ''x'' @ CRLF @ ''--xyz'' @ CRLF
                   @ ''Content-Disposition: form-data; name='' @ [DQ] @ ''k'' @ [DQ]
                   @ CRLF @ CRLF @ ''y'',
      read_err = None\<rparr>"

definition no_scheme_env :: "unit env" where
  "no_scheme_env =
     (quiet_env (answer_200 []) (decode_to file_ok))
       \<lparr>new_request_err :=
          (\<lambda>m u. if take 1 u = '':'' then Some ''missing protocol scheme'' else None)\<rparr>"

text \<open>A field whose value holds the closing boundary line of \<open>xyz\<close>.\<close>

definition delimiter_value :: Values where
  "delimiter_value = [(''k'', [''v'' @ CRLF @ ''--xyz--'' @ CRLF])]"

section \<open>The producer's trace\<close>

lemma write_fields_events:
  "ev \<in> set (fst (write_fields env ps)) \<Longrightarrow> \<exists>k v e. ev = EvWriteField k v e"
  by (induction ps) (auto split: list.splits option.splits prod.splits)

lemma write_fields_no_close: "count_list (fst (write_fields env ps)) EvPipeClose = 0"
  by (induction ps) (auto split: list.splits option.splits prod.splits)

text \<open>
  C7: on every path through the producer (a failure of \<open>CreateFormFile\<close>, of \<open>io.Copy\<close>,
  of \<open>WriteField\<close> or of \<open>writer.Close\<close>, the panic of \<open>v[0]\<close>, and the success path) the
  pipe's write end is closed exactly once, as the last step. On the success path
  \<open>writer.Close\<close> is called, and whenever it was called the trace ends with that call,
  the send of its result and the pipe's close, in this order.
\<close>

theorem producer_closes_pipe_once:
  "count_list (producer env filename params data) EvPipeClose = 1
   \<and> last (producer env filename params data) = EvPipeClose
   \<and> (create_file_err env = None \<and> snd (io_Copy env data) = None
        \<and> snd (write_fields env (range_order env params)) = Done \<longrightarrow>
        EvWriterClose (close_err env) \<in> set (producer env filename params data))
   \<and> (\<forall>r. EvWriterClose r \<in> set (producer env filename params data) \<longrightarrow>
        (\<exists>pre. producer env filename params data
                 = pre @ [EvWriterClose r, EvSend r, EvPipeClose]))"
proof -
  have nc: "count_list (fst (write_fields env (range_order env params))) EvPipeClose = 0"
    by (rule write_fields_no_close)
  have nw: "\<And>r. EvWriterClose r \<notin> set (fst (write_fields env (range_order env params)))"
    using write_fields_events by fastforce
  show ?thesis
    using nc nw
    by (auto simp: producer_def Let_def
             split: option.splits prod.splits loop_exit.splits)
qed

theorem producer_closes_pipe_once_witness:
  "create_file_err (quiet_env (answer_200 []) (decode_to not_authed)) = None
   \<and> snd (io_Copy (quiet_env (answer_200 []) (decode_to not_authed)) hello) = None
   \<and> snd (write_fields (quiet_env (answer_200 []) (decode_to not_authed))
            (range_order (quiet_env (answer_200 []) (decode_to not_authed))
               [(''token'', [''t''])])) = Done
   \<and> EvWriterClose None
     \<in> set (producer (quiet_env (answer_200 []) (decode_to not_authed)) ''a.txt''
              [(''token'', [''t''])] hello)
   \<and> (\<exists>pre. producer (quiet_env (answer_200 []) (decode_to not_authed)) ''a.txt''
               [(''token'', [''t''])] hello
             = pre @ [EvWriterClose None, EvSend None, EvPipeClose])
   \<and> count_list (producer (quiet_env (answer_200 []) (decode_to not_authed)) ''a.txt''
                   [(''token'', [''t''])] broken_stream) EvPipeClose = 1"
proof -
  let ?env = "quiet_env (answer_200 []) (decode_to not_authed)"
  have h1: "create_file_err ?env = None" by (simp add: quiet_env_def)
  have h2: "snd (io_Copy ?env hello) = None" by (simp add: quiet_env_def io_Copy_def hello_def)
  have h3: "snd (write_fields ?env (range_order ?env [(''token'', [''t''])])) = Done"
    by (simp add: quiet_env_def)
  have c: "close_err ?env = None" by (simp add: quiet_env_def)
  have h: "EvWriterClose None \<in> set (producer ?env ''a.txt'' [(''token'', [''t''])] hello)"
    using h1 h2 h3 c
      producer_closes_pipe_once [of ?env "''a.txt''" "[(''token'', [''t''])]" hello]
    by simp
  show ?thesis
    using h h1 h2 h3
      producer_closes_pipe_once [of ?env "''a.txt''" "[(''token'', [''t''])]" hello]
      producer_closes_pipe_once [of ?env "''a.txt''" "[(''token'', [''t''])]" broken_stream]
    by blast
qed

lemma sent_values_write_fields:
  "sent_values (fst (write_fields env ps) @ rest) = sent_values rest"
  by (induction ps) (auto split: list.splits option.splits prod.splits)

lemma producer_sends_once:
  "snd (write_fields env (range_order env params)) \<noteq> IndexPanic
   \<Longrightarrow> length (sent_values (producer env filename params data)) = 1"
  using sent_values_write_fields [of env "range_order env params"]
  by (auto simp: producer_def Let_def split: option.splits prod.splits loop_exit.splits)

lemma stops_at_failure_write_fields:
  "stops_at_failure (fst (write_fields env ps) @ rest)
     = (case snd (write_fields env ps) of
          Failed e \<Rightarrow> rest = [EvSend (Some e), EvPipeClose]
        | Done \<Rightarrow> stops_at_failure rest
        | IndexPanic \<Rightarrow> stops_at_failure rest)"
  by (induction ps) (auto split: list.splits option.splits prod.splits loop_exit.splits)

lemma producer_stops_at_failure: "stops_at_failure (producer env filename params data)"
  using stops_at_failure_write_fields [of env "range_order env params"]
  by (auto simp: producer_def Let_def split: option.splits prod.splits loop_exit.splits)

text \<open>
  C4 fails on the code. When \<open>http.NewRequest\<close> fails, \<open>doUpload\<close> returns that error
  with the goroutine already started and nothing left to read the pipe: no step of the
  producer completes, no value is sent on \<open>errChan\<close> and the pipe's write end is not
  closed. When a key has no value, \<open>v[0]\<close> panics: the producer sends no value and the
  call does not return. On every other path exactly one value is sent
  (\<open>producer_sends_once\<close>), and on every path a failed call is followed by the send
  of its error and the pipe's close only (\<open>producer_stops_at_failure\<close>).
\<close>

theorem doUpload_producer_never_reports:
  "ret (doUpload no_scheme_env \<lparr>token = ''xoxp-1'', url = '':''\<rparr> ''files.upload'' ''a.txt''
          [] hello (Some zero_response))
     = Returned (Some (GoError ''missing protocol scheme''))
   \<and> producer_trace (doUpload no_scheme_env \<lparr>token = ''xoxp-1'', url = '':''\<rparr> ''files.upload''
          ''a.txt'' [] hello (Some zero_response)) = []
   \<and> sent_values (producer_trace (doUpload no_scheme_env \<lparr>token = ''xoxp-1'', url = '':''\<rparr>
          ''files.upload'' ''a.txt'' [] hello (Some zero_response))) = []
   \<and> count_list (producer_trace (doUpload no_scheme_env \<lparr>token = ''xoxp-1'', url = '':''\<rparr>
          ''files.upload'' ''a.txt'' [] hello (Some zero_response))) EvPipeClose = 0
   \<and> sent_values (producer (quiet_env (answer_200 []) (decode_to file_ok)) ''a.txt''
          [(''k'', [])] hello) = []
   \<and> ret (doUpload (quiet_env (answer_200 []) (decode_to file_ok))
          \<lparr>token = [], url = ''https://slack.com/api/''\<rparr> ''files.upload'' ''a.txt''
          [(''k'', [])] hello (Some zero_response))
       = Panicked ''index out of range''"
  by (simp add: doUpload_def producer_def quiet_env_def no_scheme_env_def io_Copy_def hello_def
        appendNotEmpty_def Let_def)

section \<open>The body the producer writes\<close>

lemma write_fields_all_ok:
  "\<forall>(k, v)\<in>set ps. v \<noteq> [] \<and> field_err env k = None \<Longrightarrow>
   write_fields env ps = (map (\<lambda>(k, v). EvWriteField k (hd v) None) ps, Done)"
  by (induction ps) (auto split: list.splits)

lemma write_fields_Done_entry:
  "snd (write_fields env ps) = Done \<Longrightarrow> (k, v) \<in> set ps \<Longrightarrow> v \<noteq> [] \<and> field_err env k = None"
  by (induction ps) (auto split: list.splits option.splits prod.splits)

lemma write_fields_Done:
  "snd (write_fields env ps) = Done \<Longrightarrow> \<forall>(k, v)\<in>set ps. v \<noteq> [] \<and> field_err env k = None"
  using write_fields_Done_entry by fast

lemma written_parts_write_fields:
  "written_parts (fst (write_fields env ps) @ rest)
     = written_parts (fst (write_fields env ps)) @ written_parts rest"
  by (induction ps) (auto split: list.splits option.splits prod.splits)

lemma written_parts_fields:
  "written_parts (map (\<lambda>(k, v). EvWriteField k (hd v) None) ps @ rest)
     = map (\<lambda>(k, v). FieldPart k (hd v)) ps @ written_parts rest"
  by (induction ps) auto

lemma errChan_recv_write_fields:
  "errChan_recv (fst (write_fields env ps) @ rest) = errChan_recv rest"
  by (induction ps) (auto split: list.splits option.splits prod.splits)

lemma field_values_append:
  "field_values k (ps @ qs) = field_values k ps @ field_values k qs"
  by (induction k ps rule: field_values.induct) auto

lemma field_values_absent:
  "k \<notin> fst ` set ps \<Longrightarrow> field_values k (written_parts (fst (write_fields env ps))) = []"
  by (induction ps) (auto split: list.splits option.splits prod.splits)

lemma field_values_first:
  "distinct (map fst ps) \<Longrightarrow> map_of ps k = Some v \<Longrightarrow>
   field_values k (written_parts (fst (write_fields env ps))) = []
   \<or> (v \<noteq> [] \<and> field_values k (written_parts (fst (write_fields env ps))) = [hd v])"
proof (induction ps)
  case Nil
  then show ?case by simp
next
  case (Cons p ps)
  obtain k' v' where p: "p = (k', v')" by (cases p)
  show ?case
  proof (cases "k' = k")
    case True
    then have "v' = v" using Cons.prems p by simp
    moreover have "k \<notin> fst ` set ps" using Cons.prems True p by auto
    ultimately show ?thesis
      using True p field_values_absent [of k ps env]
      by (auto split: list.splits option.splits prod.splits)
  next
    case False
    then have "map_of ps k = Some v" using Cons.prems p by simp
    moreover have "distinct (map fst ps)" using Cons.prems by simp
    ultimately show ?thesis
      using Cons.IH False p
      by (auto split: list.splits option.splits prod.splits)
  qed
qed

lemma field_values_all:
  "distinct (map fst ps) \<Longrightarrow> map_of ps k = Some v \<Longrightarrow>
   field_values k (map (\<lambda>(k, v). FieldPart k (hd v)) ps) = [hd v]"
proof (induction ps)
  case Nil
  then show ?case by simp
next
  case (Cons p ps)
  obtain k' v' where p: "p = (k', v')" by (cases p)
  have absent: "\<And>qs. k \<notin> fst ` set qs \<Longrightarrow> field_values k (map (\<lambda>(k, v). FieldPart k (hd v)) qs) = []"
    subgoal for qs by (induction qs) auto
    done
  show ?case
  proof (cases "k' = k")
    case True
    then show ?thesis using Cons.prems p absent [of ps] by auto
  next
    case False
    then show ?thesis using Cons p by auto
  qed
qed

lemma errChan_recv_fields:
  "errChan_recv (map (\<lambda>(k, v). EvWriteField k (hd v) None) ps @ rest) = errChan_recv rest"
  by (induction ps) auto

lemma producer_all_ok:
  assumes "read_err data = None"
    and "create_file_err env = None" and "copy_write_err env = None"
    and "close_err env = None"
    and "\<forall>(k, v)\<in>set (range_order env params). v \<noteq> [] \<and> field_err env k = None"
  shows "producer env filename params data =
           [EvCreateFormFile ''file'' filename None, EvCopy (contents data) None]
           @ map (\<lambda>(k, v). EvWriteField k (hd v) None) (range_order env params)
           @ [EvWriterClose None, EvSend None, EvPipeClose]"
  using assms write_fields_all_ok [of "range_order env params" env]
  by (simp add: producer_def io_Copy_def)

subsection \<open>The document on the wire\<close>

lemma find_sub_hit: "find_sub d (d @ r) = Some ([], r)"
proof (cases "d @ r")
  case Nil
  then show ?thesis by simp
next
  case (Cons x xs)
  have "take (length d) (d @ r) = d" "drop (length d) (d @ r) = r" by simp_all
  then have "take (length d) (x # xs) = d" "drop (length d) (x # xs) = r"
    using Cons by simp_all
  then have "find_sub d (x # xs) = Some ([], r)" by simp
  then show ?thesis using Cons by simp
qed

lemma find_sub_skip:
  "c0 \<notin> set a \<Longrightarrow>
   find_sub (c0 # d') (a @ s)
     = (case find_sub (c0 # d') s of None \<Rightarrow> None | Some (x, r) \<Rightarrow> Some (a @ x, r))"
  by (induction a) (auto split: option.splits)

lemma find_sub_absent: "c0 \<notin> set s \<Longrightarrow> find_sub (c0 # d') s = None"
  by (induction s) auto

lemma find_sub_first:
  "c0 \<notin> set a \<Longrightarrow> find_sub (c0 # d') (a @ (c0 # d') @ r) = Some (a, r)"
  using find_sub_hit [of "c0 # d'" r] by (simp add: find_sub_skip del: find_sub.simps)

lemma find_sub_extend:
  "find_sub d (c @ d) = Some (c, []) \<Longrightarrow> find_sub d (c @ d @ r) = Some (c, r)"
proof (induction c)
  case Nil
  show ?case using find_sub_hit [of d r] by simp
next
  case (Cons x c)
  have n: "take (length d) (x # c @ d) \<noteq> d"
    using Cons.prems by (auto split: if_splits)
  have "take (length d) (x # c @ d @ r) = take (length d) (x # c @ d)"
    by (simp add: take_Cons')
  then have n': "take (length d) (x # c @ d @ r) \<noteq> d" using n by simp
  have "find_sub d (c @ d) = Some (c, [])"
    using Cons.prems n by (auto split: option.splits)
  then have "find_sub d (c @ d @ r) = Some (c, r)" by (rule Cons.IH)
  then show ?case using n' by simp
qed

lemma delimiter_free_find:
  "delimiter_free b c \<Longrightarrow> find_sub (CRLF @ ''--'' @ b) (c @ CRLF @ ''--'' @ b @ r) = Some (c, r)"
  using find_sub_extend [of "CRLF @ ''--'' @ b" c r] by (simp add: delimiter_free_def)

lemma escapeQuotes_no_CR: "CR \<notin> set (escapeQuotes s)"
  by (induction s) auto

lemma read_quoted_escapeQuotes:
  "CR \<notin> set s \<Longrightarrow> LF \<notin> set s \<Longrightarrow> read_quoted (escapeQuotes s @ DQ # r) = Some (s, r)"
  by (induction s) auto

lemma field_disposition_no_CR: "CR \<notin> set (field_disposition k)"
  by (simp add: field_disposition_def escapeQuotes_no_CR)

lemma file_disposition_no_CR: "CR \<notin> set (file_disposition n f)"
  by (simp add: file_disposition_def escapeQuotes_no_CR)

lemma read_field_disposition:
  "CR \<notin> set k \<Longrightarrow> LF \<notin> set k \<Longrightarrow> read_disposition (field_disposition k) = Some (k, None)"
  using read_quoted_escapeQuotes [of k "[]"]
  by (simp add: read_disposition_def field_disposition_def strip_prefix_def)

lemma read_file_disposition:
  "CR \<notin> set n \<Longrightarrow> LF \<notin> set n \<Longrightarrow> CR \<notin> set f \<Longrightarrow> LF \<notin> set f \<Longrightarrow>
   read_disposition (file_disposition n f) = Some (n, Some f)"
  using read_quoted_escapeQuotes [of n "''; filename='' @ DQ # escapeQuotes f @ [DQ]"]
    read_quoted_escapeQuotes [of f "[]"]
  by (simp add: read_disposition_def file_disposition_def strip_prefix_def)


lemma header_end_field:
  "find_sub (CRLF @ CRLF) (field_disposition k @ CRLF @ CRLF @ r) = Some (field_disposition k, r)"
  using find_sub_first [OF field_disposition_no_CR, of "[LF, CR, LF]" k r] by simp

lemma header_end_file:
  "find_sub (CRLF @ CRLF)
     ((file_disposition n f @ CRLF @ ''Content-Type: application/octet-stream'') @ CRLF @ CRLF @ r)
   = Some (file_disposition n f @ CRLF @ ''Content-Type: application/octet-stream'', r)"
proof -
  let ?ct = "''Content-Type: application/octet-stream''"
  have "find_sub (CRLF @ CRLF) ((LF # ?ct) @ (CRLF @ CRLF) @ r) = Some (LF # ?ct, r)"
    using find_sub_first [of CR "LF # ?ct" "[LF, CR, LF]" r] by simp
  then have "find_sub (CRLF @ CRLF) (CR # LF # ?ct @ CRLF @ CRLF @ r) = Some (CR # LF # ?ct, r)"
    by simp
  then show ?thesis
    using find_sub_skip [OF file_disposition_no_CR, of "[LF, CR, LF]" n f
        "CR # LF # ?ct @ CRLF @ CRLF @ r"]
    by simp
qed

lemma read_parts_fields:
  assumes "\<And>r. find_sub (CRLF @ CRLF) (h @ CRLF @ CRLF @ r) = Some (h, r)"
    and "delimiter_free b c"
    and "\<forall>(k, v)\<in>set ps. delimiter_free b (hd v)"
  shows "read_parts b (h @ CRLF @ CRLF @ c
           @ wire b True (map (\<lambda>(k, v). EvWriteField k (hd v) None) ps
                           @ [EvWriterClose None, EvSend None, EvPipeClose]))
         = Some ((h, c) # map (\<lambda>(k, v). (field_disposition k, hd v)) ps)"
  using assms
proof (induction ps arbitrary: h c)
  case Nil
  have w: "wire b True [EvWriterClose None, EvSend None, EvPipeClose]
           = CRLF @ ''--'' @ b @ ''--'' @ CRLF"
    by (simp add: Writer_Close_def)
  have d: "find_sub (CRLF @ ''--'' @ b) (c @ CRLF @ ''--'' @ b @ ''--'' @ CRLF)
           = Some (c, ''--'' @ CRLF)"
    by (rule delimiter_free_find [OF Nil.prems(2)])
  show ?case
    apply (subst read_parts.simps)
    using Nil.prems(1) [of "c @ CRLF @ ''--'' @ b @ ''--'' @ CRLF"] d
    by (simp add: Writer_Close_def)
next
  case (Cons p ps)
  obtain k v where p: "p = (k, v)" by (cases p)
  let ?W = "wire b True (map (\<lambda>(k, v). EvWriteField k (hd v) None) ps
                           @ [EvWriterClose None, EvSend None, EvPipeClose])"
  have w: "wire b True (map (\<lambda>(k, v). EvWriteField k (hd v) None) (p # ps)
                           @ [EvWriterClose None, EvSend None, EvPipeClose])
           = CRLF @ ''--'' @ b @ CRLF @ field_disposition k @ CRLF @ CRLF @ hd v @ ?W"
    by (simp add: p CreatePart_def)
  have d: "find_sub (CRLF @ ''--'' @ b)
             (c @ CRLF @ ''--'' @ b @ CRLF @ field_disposition k @ CRLF @ CRLF @ hd v @ ?W)
           = Some (c, CRLF @ field_disposition k @ CRLF @ CRLF @ hd v @ ?W)"
    by (rule delimiter_free_find [OF Cons.prems(2)])
  have df: "delimiter_free b (hd v)" using Cons.prems(3) p by simp
  have rest: "\<forall>(k, v)\<in>set ps. delimiter_free b (hd v)" using Cons.prems(3) by simp
  have ih: "read_parts b (field_disposition k @ CRLF @ CRLF @ hd v @ ?W)
            = Some ((field_disposition k, hd v) # map (\<lambda>(k, v). (field_disposition k, hd v)) ps)"
    by (rule Cons.IH [OF header_end_field df rest])
  show ?case
    apply (subst read_parts.simps)
    using Cons.prems(1)
            [of "c @ CRLF @ ''--'' @ b @ CRLF @ field_disposition k @ CRLF @ CRLF @ hd v @ ?W"]
          d ih
    by (simp add: p CreatePart_def)
qed

lemma read_part_field:
  "CR \<notin> set k \<Longrightarrow> LF \<notin> set k \<Longrightarrow> read_part (field_disposition k, c) = Some (FieldPart k c)"
  using find_sub_absent [OF field_disposition_no_CR, of "[LF]" k]
  by (simp add: read_part_def read_field_disposition)

lemma read_part_file:
  "CR \<notin> set n \<Longrightarrow> LF \<notin> set n \<Longrightarrow> CR \<notin> set f \<Longrightarrow> LF \<notin> set f \<Longrightarrow>
   read_part (file_disposition n f @ CRLF @ ''Content-Type: application/octet-stream'', c)
     = Some (FilePart n f c)"
  using find_sub_first [OF file_disposition_no_CR, of "[LF]" n f
      "''Content-Type: application/octet-stream''"]
  by (simp add: read_part_def read_file_disposition)

lemma those_read_fields:
  "\<forall>(k, v)\<in>set ps. CR \<notin> set k \<and> LF \<notin> set k \<Longrightarrow>
   those (map read_part (map (\<lambda>(k, v). (field_disposition k, hd v)) ps))
     = Some (map (\<lambda>(k, v). FieldPart k (hd v)) ps)"
  by (induction ps) (auto simp: read_part_field)


lemma strip_prefix_append: "strip_prefix p (p @ r) = Some r"
  by (simp add: strip_prefix_def)

lemma wire_upload:
  "wire b False ([EvCreateFormFile ''file'' filename None, EvCopy c None]
                 @ map (\<lambda>(k, v). EvWriteField k (hd v) None) ps
                 @ [EvWriterClose None, EvSend None, EvPipeClose])
   = (''--'' @ b @ CRLF)
     @ (file_disposition ''file'' filename @ CRLF @ ''Content-Type: application/octet-stream'')
     @ CRLF @ CRLF @ c
     @ wire b True (map (\<lambda>(k, v). EvWriteField k (hd v) None) ps
                    @ [EvWriterClose None, EvSend None, EvPipeClose])"
  by (simp add: CreatePart_def)

text \<open>
  C2, as the code has it: when the stream is read to its end, every field has a value, no
  call of the multipart writer fails, the filename and the field names hold no CR or LF,
  and the delimiter line (CRLF, two dashes, the boundary) occurs neither in the stream's
  contents nor in a field value, the producer reports nil and the bytes it wrote into the
  pipe read back as a multipart/form-data document under the announced boundary: first
  the one file part, named \<open>file\<close>, with the given filename and the whole contents of
  the stream, then one form part per field with its first value, in the order \<open>range\<close>
  visited them.
\<close>

theorem producer_wire_document:
  assumes "read_err data = None"
    and "create_file_err env = None" and "copy_write_err env = None"
    and "close_err env = None"
    and "\<forall>(k, v)\<in>set params. v \<noteq> [] \<and> field_err env k = None"
    and "mset (range_order env params) = mset params"
    and "CR \<notin> set filename" and "LF \<notin> set filename"
    and "\<forall>(k, v)\<in>set params. CR \<notin> set k \<and> LF \<notin> set k"
    and "delimiter_free (boundary env) (contents data)"
    and "\<forall>(k, v)\<in>set params. delimiter_free (boundary env) (hd v)"
  shows "errChan_recv (producer env filename params data) = Some None
         \<and> read_multipart (boundary env)
             (wire (boundary env) False (producer env filename params data))
           = Some (FilePart ''file'' filename (contents data)
                   # map (\<lambda>(k, v). FieldPart k (hd v)) (range_order env params))
         \<and> mset (map (\<lambda>(k, v). FieldPart k (hd v)) (range_order env params))
           = mset (map (\<lambda>(k, v). FieldPart k (hd v)) params)"
proof -
  let ?b = "boundary env"
  let ?ps = "range_order env params"
  let ?H = "file_disposition ''file'' filename @ CRLF @ ''Content-Type: application/octet-stream''"
  let ?W = "wire ?b True (map (\<lambda>(k, v). EvWriteField k (hd v) None) ?ps
                    @ [EvWriterClose None, EvSend None, EvPipeClose])"
  have s: "set ?ps = set params"
    using assms(6) by (metis set_mset_mset)
  have ok: "\<forall>(k, v)\<in>set ?ps. v \<noteq> [] \<and> field_err env k = None"
    using assms(5) s by simp
  have keys: "\<forall>(k, v)\<in>set ?ps. CR \<notin> set k \<and> LF \<notin> set k"
    using assms(9) s by simp
  have vals: "\<forall>(k, v)\<in>set ?ps. delimiter_free ?b (hd v)"
    using assms(11) s by simp
  have tr: "producer env filename params data =
           [EvCreateFormFile ''file'' filename None, EvCopy (contents data) None]
           @ map (\<lambda>(k, v). EvWriteField k (hd v) None) ?ps
           @ [EvWriterClose None, EvSend None, EvPipeClose]"
    by (rule producer_all_ok [OF assms(1,2,3,4) ok])
  have w: "wire ?b False (producer env filename params data)
           = (''--'' @ ?b @ CRLF) @ ?H @ CRLF @ CRLF @ contents data @ ?W"
    unfolding tr by (rule wire_upload)
  have he: "\<And>r. find_sub (CRLF @ CRLF) (?H @ CRLF @ CRLF @ r) = Some (?H, r)"
    using header_end_file [of "''file''" filename] by simp
  have raw: "read_parts ?b (?H @ CRLF @ CRLF @ contents data @ ?W)
             = Some ((?H, contents data) # map (\<lambda>(k, v). (field_disposition k, hd v)) ?ps)"
    by (rule read_parts_fields [OF he assms(10) vals])
  have fpart: "read_part (?H, contents data) = Some (FilePart ''file'' filename (contents data))"
    using read_part_file [OF _ _ assms(7,8), of "''file''" "contents data"] by simp
  have fields: "those (map read_part (map (\<lambda>(k, v). (field_disposition k, hd v)) ?ps))
                = Some (map (\<lambda>(k, v). FieldPart k (hd v)) ?ps)"
    by (rule those_read_fields [OF keys])
  have doc: "read_multipart ?b (wire ?b False (producer env filename params data))
             = Some (FilePart ''file'' filename (contents data)
                     # map (\<lambda>(k, v). FieldPart k (hd v)) ?ps)"
    unfolding w read_multipart_def strip_prefix_append
    using raw fpart fields by simp
  have rep: "errChan_recv (producer env filename params data) = Some None"
    unfolding tr by (simp add: errChan_recv_fields)
  have m: "mset (map (\<lambda>(k, v). FieldPart k (hd v)) ?ps)
           = mset (map (\<lambda>(k, v). FieldPart k (hd v)) params)"
    using assms(6) by (metis mset_map)
  show ?thesis using doc rep m by simp
qed


theorem producer_wire_document_witness:
  "delimiter_free ''xyz'' ''hello'' \<and> delimiter_free ''xyz'' ''report''
   \<and> read_multipart ''xyz''
        (wire ''xyz'' False
           (producer (quiet_env (answer_200 []) (decode_to file_ok)) ''report.txt''
              [(''title'', [''report'']), (''token'', [''xoxp-1''])] hello))
       = Some [FilePart ''file'' ''report.txt'' ''hello'', FieldPart ''title'' ''report'',
               FieldPart ''token'' ''xoxp-1'']"
proof -
  let ?env = "quiet_env (answer_200 []) (decode_to file_ok)"
  let ?ps = "[(''title'', [''report'']), (''token'', [''xoxp-1''])]"
  have h1: "read_err hello = None" by (simp add: hello_def)
  have h2: "create_file_err ?env = None" by (simp add: quiet_env_def)
  have h3: "copy_write_err ?env = None" by (simp add: quiet_env_def)
  have h4: "close_err ?env = None" by (simp add: quiet_env_def)
  have h5: "\<forall>(k, v)\<in>set ?ps. v \<noteq> [] \<and> field_err ?env k = None" by (simp add: quiet_env_def)
  have h6: "mset (range_order ?env ?ps) = mset ?ps" by (simp add: quiet_env_def)
  have h7: "CR \<notin> set ''report.txt''" by simp
  have h8: "LF \<notin> set ''report.txt''" by simp
  have h9: "\<forall>(k, v)\<in>set ?ps. CR \<notin> set k \<and> LF \<notin> set k" by simp
  have d1: "delimiter_free ''xyz'' ''hello''" by (simp add: delimiter_free_def)
  have d2: "delimiter_free ''xyz'' ''report''" by (simp add: delimiter_free_def)
  have d3: "delimiter_free ''xyz'' ''xoxp-1''" by (simp add: delimiter_free_def)
  have b: "boundary ?env = ''xyz''" by (simp add: quiet_env_def)
  have r: "range_order ?env ?ps = ?ps" by (simp add: quiet_env_def)
  have h10: "delimiter_free (boundary ?env) (contents hello)" using d1 by (simp add: b hello_def)
  have h11: "\<forall>(k, v)\<in>set ?ps. delimiter_free (boundary ?env) (hd v)" using d2 d3 by (simp add: b)
  show ?thesis
    using d1 d2 producer_wire_document [OF h1 h2 h3 h4 h5 h6 h7 h8 h9 h10 h11]
    by (simp add: b r hello_def)
qed

text \<open>
  C2, as stated, fails. A filename with a line feed is carried with the line feed
  percent-encoded, so the file part does not carry the given filename. When the reader
  of the pipe has gone away the bytes written are no document. A stream that holds the
  delimiter line reads back as a file part with other contents and a form part nobody
  supplied. A stream that fails, and a field with no value, leave no document; a field
  name with a line feed is carried percent-encoded; a field value that holds the closing
  boundary line leaves no document.
\<close>

theorem producer_wire_not_as_given:
  "read_multipart ''xyz''
     (wire ''xyz'' False
        (producer (quiet_env (answer_200 []) (decode_to file_ok)) (''a'' @ [LF] @ ''b.txt'')
           [] hello))
     = Some [FilePart ''file'' ''a%0Ab.txt'' ''hello'']
   \<and> ''a%0Ab.txt'' \<noteq> ''a'' @ [LF] @ ''b.txt''
   \<and> read_multipart ''xyz''
        (wire ''xyz'' False (producer closed_pipe_env ''a.txt'' [] hello)) = None
   \<and> read_multipart ''xyz''
        (wire ''xyz'' False
           (producer (quiet_env (answer_200 []) (decode_to file_ok)) ''a.txt'' []
              smuggling_stream))
       = Some [FilePart ''file'' ''a.txt'' ''x'', FieldPart ''k'' ''y'']
   \<and> read_multipart ''xyz''
        (wire ''xyz'' False
           (producer (quiet_env (answer_200 []) (decode_to file_ok)) ''a.txt'' []
              broken_stream)) = None
   \<and> read_multipart ''xyz''
        (wire ''xyz'' False
           (producer (quiet_env (answer_200 []) (decode_to file_ok)) ''a.txt''
              [(''k'', [])] hello)) = None
   \<and> read_multipart ''xyz''
        (wire ''xyz'' False
           (producer (quiet_env (answer_200 []) (decode_to file_ok)) ''a.txt''
              [(''a'' @ [LF] @ ''b'', [''v''])] hello))
       = Some [FilePart ''file'' ''a.txt'' ''hello'', FieldPart ''a%0Ab'' ''v'']
   \<and> read_multipart ''xyz''
        (wire ''xyz'' False
           (producer (quiet_env (answer_200 []) (decode_to file_ok)) ''a.txt''
              delimiter_value hello)) = None"
  by (simp add: producer_def quiet_env_def closed_pipe_env_def io_Copy_def hello_def
        smuggling_stream_def broken_stream_def delimiter_value_def
        CreatePart_def Writer_Close_def file_disposition_def
        field_disposition_def read_multipart_def strip_prefix_def read_part_def
        read_disposition_def read_parts.simps)

text \<open>
  C9: for every key of the parameters the producer ranges over, with values \<open>v\<close>: a form
  part of that name carries \<open>v[0]\<close> and nothing else, there is at most one such part,
  and when the producer reports nil there is exactly one; the values after the first are
  never written.
\<close>

theorem producer_first_value_only:
  assumes "mset (range_order env params) = mset params"
    and "distinct (map fst params)"
    and "map_of params k = Some v"
  shows "(\<forall>x\<in>set (field_values k (body_parts (body_of (producer env filename params data)))).
            v \<noteq> [] \<and> x = hd v)
         \<and> length (field_values k (body_parts (body_of (producer env filename params data)))) \<le> 1
         \<and> (errChan_recv (producer env filename params data) = Some None \<longrightarrow>
              v \<noteq> [] \<and> field_values k (body_parts (body_of (producer env filename params data))) = [hd v])"
proof -
  let ?ps = "range_order env params"
  let ?evs = "fst (write_fields env ?ps)"
  have d: "distinct (map fst ?ps)"
    using assms(1,2) by (metis mset_map mset_eq_imp_distinct_iff)
  have "set ?ps = set params" using assms(1) by (metis set_mset_mset)
  then have m: "map_of ?ps k = Some v"
    using assms(2,3) d by (metis map_of_eq_Some_iff)
  have first: "field_values k (written_parts ?evs) = []
               \<or> (v \<noteq> [] \<and> field_values k (written_parts ?evs) = [hd v])"
    by (rule field_values_first [OF d m])
  have wp: "\<And>rest. written_parts (?evs @ rest) = written_parts ?evs @ written_parts rest"
    by (rule written_parts_write_fields)
  have compl: "v \<noteq> [] \<and> field_values k (written_parts ?evs) = [hd v]"
    if a: "snd (write_fields env ?ps) = Done"
  proof -
    have ok: "\<forall>(k, v)\<in>set ?ps. v \<noteq> [] \<and> field_err env k = None"
      by (rule write_fields_Done [OF a])
    have "(k, v) \<in> set ?ps" using m by (rule map_of_SomeD)
    then have "v \<noteq> []" using ok by auto
    moreover have "?evs = map (\<lambda>(k, v). EvWriteField k (hd v) None) ?ps"
      using write_fields_all_ok [OF ok] by simp
    moreover have "field_values k (written_parts (map (\<lambda>(k, v). EvWriteField k (hd v) None) ?ps)) = [hd v]"
      using written_parts_fields [of ?ps "[]"] field_values_all [OF d m] by simp
    ultimately show ?thesis by simp
  qed
  have er: "\<And>rest. errChan_recv (?evs @ rest) = errChan_recv rest"
    by (rule errChan_recv_write_fields)
  show ?thesis
    using first wp compl er
    by (auto simp: producer_def body_of_def Let_def field_values_append
             split: option.splits prod.splits loop_exit.splits)
qed

theorem producer_first_value_only_witness:
  "map_of [(''channels'', [''C1'', ''C2'']), (''title'', [''t''])] ''channels'' = Some [''C1'', ''C2'']
   \<and> errChan_recv (producer (quiet_env (answer_200 []) (decode_to not_authed)) ''a.txt''
         [(''channels'', [''C1'', ''C2'']), (''title'', [''t''])] hello) = Some None
   \<and> field_values ''channels'' (body_parts (body_of
         (producer (quiet_env (answer_200 []) (decode_to not_authed)) ''a.txt''
            [(''channels'', [''C1'', ''C2'']), (''title'', [''t''])] hello))) = [''C1'']"
proof -
  let ?env = "quiet_env (answer_200 []) (decode_to not_authed) :: unit env"
  let ?ps = "[(''channels'', [''C1'', ''C2'']), (''title'', [''t''])]"
  have h1: "mset (range_order ?env ?ps) = mset ?ps" by (simp add: quiet_env_def)
  have h2: "distinct (map fst ?ps)" by simp
  have h3: "map_of ?ps ''channels'' = Some [''C1'', ''C2'']" by simp
  have h4: "errChan_recv (producer ?env ''a.txt'' ?ps hello) = Some None"
    by (simp add: producer_def quiet_env_def io_Copy_def hello_def)
  show ?thesis
    using h3 h4 producer_first_value_only [OF h1 h2 h3, of "''a.txt''" hello]
    by simp
qed

section \<open>Errors of the upload\<close>

text \<open>
  C3: \<open>Upload\<close> with the empty filename returns at once the error made by \<open>fmt.Errorf\<close>
  and a nil result; it makes no call into the HTTP library: no request is built, none
  is sent.
\<close>

theorem Upload_empty_filename:
  "Upload env s title filetype [] initialComment channels data =
     (Returned (None, Some (GoError ''You must specify the filename for the upload'')), [])"
  by (simp add: Upload_def)

text \<open>
  C1: when the producer goroutine reports a non-nil error on the error channel,
  \<open>doUpload\<close> returns that error, whatever the HTTP client answered: a response as well as
  a transport error.
\<close>

theorem doUpload_encoding_error_first:
  "errChan_recv (producer_trace (doUpload env s path filename params data result))
     = Some (Some cerr)
   \<Longrightarrow> ret (doUpload env s path filename params data result) = Returned (Some (GoError cerr))"
  by (auto simp: doUpload_def Let_def split: option.splits sum.splits if_splits)

theorem doUpload_encoding_error_first_witness:
  "errChan_recv (producer_trace (doUpload (quiet_env (answer_200 ''ok'') (decode_to not_authed))
       api ''files.upload'' ''a.txt'' [] broken_stream (Some zero_response)))
     = Some (Some ''unexpected EOF'')
   \<and> client_do (quiet_env (answer_200 ''ok'') (decode_to not_authed)) = answer_200 ''ok''
   \<and> ret (doUpload (quiet_env (answer_200 ''ok'') (decode_to not_authed))
       api ''files.upload'' ''a.txt'' [] broken_stream (Some zero_response))
     = Returned (Some (GoError ''unexpected EOF''))"
proof -
  have h: "errChan_recv (producer_trace (doUpload (quiet_env (answer_200 ''ok'') (decode_to not_authed))
       api ''files.upload'' ''a.txt'' [] broken_stream (Some zero_response)))
     = Some (Some ''unexpected EOF'')"
    by (simp add: doUpload_def producer_def quiet_env_def io_Copy_def broken_stream_def Let_def)
  show ?thesis
    using h doUpload_encoding_error_first [OF h]
    by (simp add: quiet_env_def)
qed

text \<open>
  C6: when the producer reported no error, the HTTP client returned a response that
  \<open>handleError\<close> lets through, and the body decodes to an envelope that is not ok,
  \<open>doUpload\<close> returns the decoded response as the error, and its \<open>Error()\<close> is the
  provider's message; the status code plays no part beyond \<open>handleError\<close>.
\<close>

theorem doUpload_service_error:
  assumes "errChan_recv (producer_trace (doUpload env s path filename params data (Some r)))
             = Some None"
    and "ClientDo req \<in> set (net_log (doUpload env s path filename params data (Some r)))"
    and "client_do env req = Inr resp"
    and "handleError env resp = None"
    and "json_decode env (resp_body resp) r = Inr sm"
    and "\<not> IsOK sm"
  shows "ret (doUpload env s path filename params data (Some r))
           = Returned (Some (ResponseError sm))
         \<and> error_message (ResponseError sm) = resp_err sm"
  using assms
  by (auto simp: doUpload_def Let_def IsOK_def Error_def
           split: option.splits sum.splits if_splits)

theorem doUpload_service_error_witness:
  "status \<lparr>status = 200, resp_body = ''{}''\<rparr> = 200
   \<and> \<not> IsOK not_authed
   \<and> ret (doUpload (quiet_env (answer_200 ''{}'') (decode_to not_authed)) api
            ''files.upload'' ''a.txt'' [] hello (Some zero_response))
       = Returned (Some (ResponseError not_authed))
   \<and> error_message (ResponseError not_authed) = ''not_authed''"
proof -
  let ?env = "quiet_env (answer_200 ''{}'') (decode_to not_authed)"
  let ?run = "doUpload ?env api ''files.upload'' ''a.txt'' [] hello (Some zero_response)"
  let ?req = "\<lparr>req_method = ''POST'', req_url = ''https://slack.com/api/files.upload'',
               req_content_type = ''multipart/form-data; boundary=xyz'',
               req_body = \<lparr>body_parts = [FilePart ''file'' ''a.txt'' ''hello'',
                                          FieldPart ''token'' ''xoxp-1''],
                           body_terminated = True\<rparr>\<rparr>"
  let ?resp = "\<lparr>status = 200, resp_body = ''{}''\<rparr>"
  have unf: "?run = \<lparr>ret = Returned (Some (ResponseError not_authed)),
       result_out = Some not_authed,
       net_log = [NewRequest ''POST'' ''https://slack.com/api/files.upload'', ClientDo ?req],
       producer_trace = [EvCreateFormFile ''file'' ''a.txt'' None, EvCopy ''hello'' None,
         EvWriteField ''token'' ''xoxp-1'' None, EvWriterClose None, EvSend None,
         EvPipeClose]\<rparr>"
    by (simp add: doUpload_def producer_def quiet_env_def io_Copy_def hello_def api_def Let_def
          appendNotEmpty_def Values_Add_def body_of_def FormDataContentType_def answer_200_def
          decode_to_def IsOK_def not_authed_def)
  have h1: "errChan_recv (producer_trace ?run) = Some None"
    by (simp add: unf)
  have h2: "ClientDo ?req \<in> set (net_log ?run)"
    by (simp add: unf)
  have h3: "client_do ?env ?req = Inr ?resp"
    by (simp add: quiet_env_def answer_200_def)
  have h4: "handleError ?env ?resp = None"
    by (simp add: quiet_env_def)
  have h5: "json_decode ?env (resp_body ?resp) zero_response = Inr not_authed"
    by (simp add: quiet_env_def decode_to_def)
  have h6: "\<not> IsOK not_authed"
    by (simp add: IsOK_def not_authed_def)
  show ?thesis
    using h6 doUpload_service_error [OF h1 h2 h3 h4 h5 h6]
    by (simp add: not_authed_def)
qed

section \<open>The parameters of Upload\<close>

lemma update_fresh: "k \<notin> fst ` set ps \<Longrightarrow> AList.update k v ps = ps @ [(k, v)]"
  by (induction ps) auto

lemma appendNotEmpty_fresh:
  "k \<notin> fst ` set ps \<Longrightarrow> appendNotEmpty k v ps = ps @ entry_unless_empty k v"
proof -
  assume a: "k \<notin> fst ` set ps"
  then have "map_of ps k = None" by (simp add: map_of_eq_None_iff)
  then show ?thesis
    using a by (simp add: appendNotEmpty_def Values_Add_def entry_unless_empty_def update_fresh)
qed

lemma Values_Set_fresh:
  "k \<notin> fst ` set ps \<Longrightarrow> Values_Set k v ps = ps @ [(k, [v])]"
  by (simp add: Values_Set_def update_fresh)

lemma keys_entry: "k \<noteq> k' \<Longrightarrow> k \<notin> fst ` set (entry_unless_empty k' v)"
  by (simp add: entry_unless_empty_def)

lemma upload_params:
  "appendNotEmpty ''token'' tok
     (if length channels > 0
      then Values_Set ''channels'' (Join channels '','')
             (appendNotEmpty ''initial_comment'' initialComment
               (appendNotEmpty ''filename'' filename
                 (appendNotEmpty ''filetype'' filetype (appendNotEmpty ''title'' title []))))
      else appendNotEmpty ''initial_comment'' initialComment
             (appendNotEmpty ''filename'' filename
               (appendNotEmpty ''filetype'' filetype (appendNotEmpty ''title'' title []))))
   = entry_unless_empty ''title'' title @ entry_unless_empty ''filetype'' filetype
     @ entry_unless_empty ''filename'' filename
     @ entry_unless_empty ''initial_comment'' initialComment
     @ (if channels = [] then [] else [(''channels'', [Join channels '',''])])
     @ entry_unless_empty ''token'' tok"
proof -
  have 1: "appendNotEmpty ''title'' title [] = entry_unless_empty ''title'' title"
    by (simp add: appendNotEmpty_fresh)
  have 2: "appendNotEmpty ''filetype'' filetype (entry_unless_empty ''title'' title)
           = entry_unless_empty ''title'' title @ entry_unless_empty ''filetype'' filetype"
    by (simp add: appendNotEmpty_fresh keys_entry)
  have 3: "appendNotEmpty ''filename'' filename
             (entry_unless_empty ''title'' title @ entry_unless_empty ''filetype'' filetype)
           = entry_unless_empty ''title'' title @ entry_unless_empty ''filetype'' filetype
             @ entry_unless_empty ''filename'' filename"
    by (simp add: appendNotEmpty_fresh keys_entry image_Un)
  have 4: "appendNotEmpty ''initial_comment'' initialComment
             (entry_unless_empty ''title'' title @ entry_unless_empty ''filetype'' filetype
              @ entry_unless_empty ''filename'' filename)
           = entry_unless_empty ''title'' title @ entry_unless_empty ''filetype'' filetype
             @ entry_unless_empty ''filename'' filename
             @ entry_unless_empty ''initial_comment'' initialComment"
    by (simp add: appendNotEmpty_fresh keys_entry image_Un)
  let ?p4 = "entry_unless_empty ''title'' title @ entry_unless_empty ''filetype'' filetype
             @ entry_unless_empty ''filename'' filename
             @ entry_unless_empty ''initial_comment'' initialComment"
  have k5: "''channels'' \<notin> fst ` set ?p4"
    by (simp add: keys_entry image_Un)
  have 5: "(if length channels > 0 then Values_Set ''channels'' (Join channels '','') ?p4 else ?p4)
           = ?p4 @ (if channels = [] then [] else [(''channels'', [Join channels '',''])])"
    using Values_Set_fresh [OF k5] by simp
  have k6: "''token'' \<notin> fst ` set (?p4 @ (if channels = [] then [] else [(''channels'', [Join channels '',''])]))"
    by (simp add: keys_entry image_Un)
  show ?thesis
    unfolding 1 2 3 4 5
    using appendNotEmpty_fresh [OF k6] by simp
qed

lemma entry_values: "\<forall>(k, v)\<in>set (entry_unless_empty k' x). v \<noteq> []"
  by (simp add: entry_unless_empty_def)

lemma entry_parts:
  "map (\<lambda>(k, v). FieldPart k (hd v)) (entry_unless_empty k x) = scalar_part k x"
  by (simp add: entry_unless_empty_def scalar_part_def)

lemma write_fields_no_panic:
  "\<forall>(k, v)\<in>set ps. v \<noteq> [] \<Longrightarrow> snd (write_fields env ps) \<noteq> IndexPanic"
  by (induction ps) (auto split: list.splits option.splits prod.splits)

lemma producer_reports:
  assumes "\<forall>(k, v)\<in>set (range_order env params). v \<noteq> []"
  shows "\<exists>r. errChan_recv (producer env filename params data) = Some r"
proof -
  have np: "snd (write_fields env (range_order env params)) \<noteq> IndexPanic"
    by (rule write_fields_no_panic [OF assms])
  have er: "\<And>rest. errChan_recv (fst (write_fields env (range_order env params)) @ rest)
                    = errChan_recv rest"
    by (rule errChan_recv_write_fields)
  show ?thesis
    using np er
    by (auto simp: producer_def Let_def split: option.splits prod.splits loop_exit.splits)
qed

lemma doUpload_returns:
  assumes "\<exists>c. errChan_recv (producer env filename (appendNotEmpty ''token'' (token s) params) data) = Some c"
  shows "\<exists>e. ret (doUpload env s path filename params data result) = Returned e"
  using assms
  by (auto simp: doUpload_def Let_def split: option.splits sum.splits)

lemma call_do_one: "\<exists>r e. call_do do path params = (r, e) \<and> (r = None \<longleftrightarrow> e \<noteq> None)"
  by (auto simp: call_do_def split: prod.splits option.splits)

lemma doUpload_net_log:
  assumes "new_request_err env ''POST'' (url s @ path) = None"
  shows "net_log (doUpload env s path filename params data result)
           = [NewRequest ''POST'' (url s @ path),
              ClientDo \<lparr>req_method = ''POST'', req_url = url s @ path,
                        req_content_type = FormDataContentType (boundary env),
                        req_body = body_of (producer env filename
                                     (appendNotEmpty ''token'' (token s) params) data)\<rparr>]"
  using assms
  by (auto simp: doUpload_def Let_def split: option.splits sum.splits)

lemma Upload_net_log:
  "filename \<noteq> [] \<Longrightarrow>
   snd (Upload env s title filetype filename initialComment channels data)
     = net_log (doUpload env s ''files.upload'' filename
         (if length channels > 0
          then Values_Set ''channels'' (Join channels '','')
                 (appendNotEmpty ''initial_comment'' initialComment
                   (appendNotEmpty ''filename'' filename
                     (appendNotEmpty ''filetype'' filetype (appendNotEmpty ''title'' title []))))
          else appendNotEmpty ''initial_comment'' initialComment
                 (appendNotEmpty ''filename'' filename
                   (appendNotEmpty ''filetype'' filetype (appendNotEmpty ''title'' title []))))
         data (Some zero_response))"
  by (simp add: Upload_def Let_def)

lemma Upload_ret:
  "filename \<noteq> [] \<Longrightarrow>
   ret (doUpload env s ''files.upload'' filename
         (if length channels > 0
          then Values_Set ''channels'' (Join channels '','')
                 (appendNotEmpty ''initial_comment'' initialComment
                   (appendNotEmpty ''filename'' filename
                     (appendNotEmpty ''filetype'' filetype (appendNotEmpty ''title'' title []))))
          else appendNotEmpty ''initial_comment'' initialComment
                 (appendNotEmpty ''filename'' filename
                   (appendNotEmpty ''filetype'' filetype (appendNotEmpty ''title'' title []))))
         data (Some zero_response)) = Returned e \<Longrightarrow>
   \<exists>r. fst (Upload env s title filetype filename initialComment channels data)
         = Returned (case e of Some err \<Rightarrow> (None, Some err) | None \<Rightarrow> (Some r, None))"
  by (auto simp: Upload_def Let_def split: option.splits)

lemma upload_params_values:
  "\<forall>(k, v)\<in>set (entry_unless_empty ''title'' title @ entry_unless_empty ''filetype'' filetype
     @ entry_unless_empty ''filename'' filename
     @ entry_unless_empty ''initial_comment'' initialComment
     @ (if channels = [] then [] else [(''channels'', [Join channels '',''])])
     @ entry_unless_empty ''token'' tok). v \<noteq> []"
  using entry_values by (simp add: ball_Un)

lemma upload_params_parts:
  "map (\<lambda>(k, v). FieldPart k (hd v))
     (entry_unless_empty ''title'' title @ entry_unless_empty ''filetype'' filetype
     @ entry_unless_empty ''filename'' filename
     @ entry_unless_empty ''initial_comment'' initialComment
     @ (if channels = [] then [] else [(''channels'', [Join channels '',''])])
     @ entry_unless_empty ''token'' tok)
   = expected_fields tok title filetype filename initialComment channels"
  by (simp add: entry_parts expected_fields_def)

text \<open>
  C5, as the code has it: when the filename is not empty, the stream is read to its end
  and no library call fails, \<open>Upload\<close> builds one request, a POST to the base URL
  followed by \<open>files.upload\<close>, and hands it to the HTTP client; its body is complete
  and holds the file part followed by the form parts \<open>title\<close>, \<open>filetype\<close>,
  \<open>filename\<close>, \<open>initial_comment\<close> and \<open>token\<close>, each present when its value is not
  empty, and \<open>channels\<close>, the list joined by commas, when the list is not empty (the
  form parts in the order \<open>range\<close> visits them).
\<close>

theorem Upload_body_fields:
  assumes "filename \<noteq> []"
    and "read_err data = None"
    and "create_file_err env = None" and "copy_write_err env = None"
    and "\<forall>k. field_err env k = None" and "close_err env = None"
    and "new_request_err env ''POST'' (url s @ ''files.upload'') = None"
    and "\<forall>ps. mset (range_order env ps) = mset ps"
  shows "\<exists>req fields.
           snd (Upload env s title filetype filename initialComment channels data)
             = [NewRequest ''POST'' (url s @ ''files.upload''), ClientDo req]
           \<and> req_method req = ''POST'' \<and> req_url req = url s @ ''files.upload''
           \<and> body_terminated (req_body req)
           \<and> body_parts (req_body req) = FilePart ''file'' filename (contents data) # fields
           \<and> mset fields
               = mset (expected_fields (token s) title filetype filename initialComment channels)"
proof -
  let ?P = "entry_unless_empty ''title'' title @ entry_unless_empty ''filetype'' filetype
     @ entry_unless_empty ''filename'' filename
     @ entry_unless_empty ''initial_comment'' initialComment
     @ (if channels = [] then [] else [(''channels'', [Join channels '',''])])
     @ entry_unless_empty ''token'' (token s)"
  let ?f = "\<lambda>(k, v). FieldPart k (hd v)"
  have perm: "mset (range_order env ?P) = mset ?P"
    using assms(8) by blast
  then have "set (range_order env ?P) = set ?P"
    by (metis set_mset_mset)
  then have ok: "\<forall>(k, v)\<in>set (range_order env ?P). v \<noteq> [] \<and> field_err env k = None"
    using upload_params_values [of title filetype filename initialComment channels "token s"]
      assms(5) by auto
  have tr: "producer env filename ?P data =
           [EvCreateFormFile ''file'' filename None, EvCopy (contents data) None]
           @ map (\<lambda>(k, v). EvWriteField k (hd v) None) (range_order env ?P)
           @ [EvWriterClose None, EvSend None, EvPipeClose]"
    by (rule producer_all_ok [OF assms(2,3,4,6) ok])
  have body: "body_of (producer env filename ?P data)
              = \<lparr>body_parts = FilePart ''file'' filename (contents data)
                               # map ?f (range_order env ?P),
                 body_terminated = True\<rparr>"
    unfolding tr by (simp add: body_of_def written_parts_fields)
  have m: "mset (map ?f (range_order env ?P))
           = mset (expected_fields (token s) title filetype filename initialComment channels)"
  proof -
    have "mset (map ?f (range_order env ?P)) = image_mset ?f (mset (range_order env ?P))"
      by simp
    also have "\<dots> = image_mset ?f (mset ?P)"
      by (simp only: perm)
    also have "\<dots> = mset (map ?f ?P)"
      by simp
    finally show ?thesis
      by (simp only: upload_params_parts)
  qed
  have "snd (Upload env s title filetype filename initialComment channels data)
        = [NewRequest ''POST'' (url s @ ''files.upload''),
           ClientDo \<lparr>req_method = ''POST'', req_url = url s @ ''files.upload'',
                     req_content_type = FormDataContentType (boundary env),
                     req_body = \<lparr>body_parts = FilePart ''file'' filename (contents data)
                                               # map ?f (range_order env ?P),
                                 body_terminated = True\<rparr>\<rparr>]"
    unfolding Upload_net_log [OF assms(1)] doUpload_net_log [OF assms(7)] upload_params body
    by (rule refl)
  then show ?thesis
    using m by simp
qed

theorem Upload_body_fields_witness:
  "''report.txt'' \<noteq> [] \<and> read_err hello = None
   \<and> snd (Upload (quiet_env (answer_200 ''{}'') (decode_to file_ok)) api ''report'' ''text''
            ''report.txt'' [] [''C123'', ''C456''] hello)
       = [NewRequest ''POST'' ''https://slack.com/api/files.upload'',
          ClientDo \<lparr>req_method = ''POST'', req_url = ''https://slack.com/api/files.upload'',
                    req_content_type = ''multipart/form-data; boundary=xyz'',
                    req_body = \<lparr>body_parts =
                       [FilePart ''file'' ''report.txt'' ''hello'',
                        FieldPart ''title'' ''report'', FieldPart ''filetype'' ''text'',
                        FieldPart ''filename'' ''report.txt'',
                        FieldPart ''channels'' ''C123,C456'',
                        FieldPart ''token'' ''xoxp-1''],
                       body_terminated = True\<rparr>\<rparr>]
   \<and> (\<exists>req fields.
         snd (Upload (quiet_env (answer_200 ''{}'') (decode_to file_ok)) api ''report'' ''text''
                ''report.txt'' [] [''C123'', ''C456''] hello)
           = [NewRequest ''POST'' (url api @ ''files.upload''), ClientDo req]
         \<and> body_parts (req_body req) = FilePart ''file'' ''report.txt'' (contents hello) # fields
         \<and> mset fields = mset (expected_fields (token api) ''report'' ''text'' ''report.txt'' []
                                  [''C123'', ''C456'']))"
proof -
  let ?env = "quiet_env (answer_200 ''{}'') (decode_to file_ok)"
  have h1: "''report.txt'' \<noteq> []" by simp
  have h2: "read_err hello = None" by (simp add: hello_def)
  have h3: "create_file_err ?env = None" by (simp add: quiet_env_def)
  have h4: "copy_write_err ?env = None" by (simp add: quiet_env_def)
  have h5: "\<forall>k. field_err ?env k = None" by (simp add: quiet_env_def)
  have h6: "close_err ?env = None" by (simp add: quiet_env_def)
  have h7: "new_request_err ?env ''POST'' (url api @ ''files.upload'') = None"
    by (simp add: quiet_env_def)
  have h8: "\<forall>ps. mset (range_order ?env ps) = mset ps" by (simp add: quiet_env_def)
  have run: "snd (Upload ?env api ''report'' ''text'' ''report.txt'' [] [''C123'', ''C456''] hello)
       = [NewRequest ''POST'' ''https://slack.com/api/files.upload'',
          ClientDo \<lparr>req_method = ''POST'', req_url = ''https://slack.com/api/files.upload'',
                    req_content_type = ''multipart/form-data; boundary=xyz'',
                    req_body = \<lparr>body_parts =
                       [FilePart ''file'' ''report.txt'' ''hello'',
                        FieldPart ''title'' ''report'', FieldPart ''filetype'' ''text'',
                        FieldPart ''filename'' ''report.txt'',
                        FieldPart ''channels'' ''C123,C456'',
                        FieldPart ''token'' ''xoxp-1''],
                       body_terminated = True\<rparr>\<rparr>]"
    by (simp add: Upload_def doUpload_def producer_def quiet_env_def io_Copy_def hello_def
          api_def Let_def appendNotEmpty_def Values_Add_def Values_Set_def body_of_def
          FormDataContentType_def answer_200_def decode_to_def IsOK_def file_ok_def)
  show ?thesis
    using h1 h2 run
      Upload_body_fields [OF h1 h2 h3 h4 h5 h6 h7 h8, of "''report''" "''text''" "[]"
        "[''C123'', ''C456'']"]
    by simp
qed

text \<open>
  C5, as stated, fails: with an empty title, file type and initial comment and no
  channels, the body sent holds the file part, \<open>filename\<close> and \<open>token\<close> only.
\<close>

theorem Upload_omits_empty_fields:
  "parts_sent (snd (Upload (quiet_env (answer_200 ''{}'') (decode_to file_ok)) api [] []
                      ''a.txt'' [] [] hello))
     = [FilePart ''file'' ''a.txt'' ''hello'', FieldPart ''filename'' ''a.txt'',
        FieldPart ''token'' ''xoxp-1'']
   \<and> field_values ''channels''
         (parts_sent (snd (Upload (quiet_env (answer_200 ''{}'') (decode_to file_ok)) api [] []
                             ''a.txt'' [] [] hello))) = []
   \<and> field_values ''title''
         (parts_sent (snd (Upload (quiet_env (answer_200 ''{}'') (decode_to file_ok)) api [] []
                             ''a.txt'' [] [] hello))) = []"
  by (simp add: Upload_def doUpload_def producer_def quiet_env_def io_Copy_def hello_def
        api_def Let_def appendNotEmpty_def Values_Add_def Values_Set_def body_of_def
        FormDataContentType_def answer_200_def decode_to_def IsOK_def file_ok_def)

section \<open>Result and error\<close>

text \<open>
  C10: \<open>Upload\<close> and the wrappers around the generic call return a pair of which
  exactly one component is not nil: a nil result with an error, or a result with a nil
  error. For \<open>Upload\<close> this includes that the call returns: the parameters it builds
  give every key a value, so the producer cannot panic on \<open>v[0]\<close>.
\<close>

theorem exactly_one_non_nil:
  assumes "\<forall>ps. mset (range_order env ps) = mset ps"
  shows "(\<exists>r e. fst (Upload env s title filetype filename initialComment channels data)
                  = Returned (r, e) \<and> (r = None \<longleftrightarrow> e \<noteq> None))
       \<and> (\<exists>r e. ChannelCreate do name = (r, e) \<and> (r = None \<longleftrightarrow> e \<noteq> None))
       \<and> (\<exists>r e. ChannelInfo do channel = (r, e) \<and> (r = None \<longleftrightarrow> e \<noteq> None))
       \<and> (\<exists>r e. ChannelList do excludeArchived = (r, e) \<and> (r = None \<longleftrightarrow> e \<noteq> None))
       \<and> (\<exists>r e. ChannelArchive do channel = (r, e) \<and> (r = None \<longleftrightarrow> e \<noteq> None))
       \<and> (\<exists>r e. GroupCreate do name = (r, e) \<and> (r = None \<longleftrightarrow> e \<noteq> None))
       \<and> (\<exists>r e. GroupInvite do channel user = (r, e) \<and> (r = None \<longleftrightarrow> e \<noteq> None))
       \<and> (\<exists>r e. GroupList do excludeArchived = (r, e) \<and> (r = None \<longleftrightarrow> e \<noteq> None))
       \<and> (\<exists>r e. FileList do user tsFrom tsTo types count' page = (r, e)
                  \<and> (r = None \<longleftrightarrow> e \<noteq> None))
       \<and> (\<exists>r e. FileInfo do file count' page = (r, e) \<and> (r = None \<longleftrightarrow> e \<noteq> None))
       \<and> (\<exists>r e. FileAddComment do file comment setActive = (r, e)
                  \<and> (r = None \<longleftrightarrow> e \<noteq> None))"
proof -
  have up: "\<exists>r e. fst (Upload env s title filetype filename initialComment channels data)
                  = Returned (r, e) \<and> (r = None \<longleftrightarrow> e \<noteq> None)"
  proof (cases "filename = []")
    case True
    then show ?thesis by (simp add: Upload_def)
  next
    case False
    let ?P = "entry_unless_empty ''title'' title @ entry_unless_empty ''filetype'' filetype
       @ entry_unless_empty ''filename'' filename
       @ entry_unless_empty ''initial_comment'' initialComment
       @ (if channels = [] then [] else [(''channels'', [Join channels '',''])])
       @ entry_unless_empty ''token'' (token s)"
    let ?Q = "if length channels > 0
          then Values_Set ''channels'' (Join channels '','')
                 (appendNotEmpty ''initial_comment'' initialComment
                   (appendNotEmpty ''filename'' filename
                     (appendNotEmpty ''filetype'' filetype (appendNotEmpty ''title'' title []))))
          else appendNotEmpty ''initial_comment'' initialComment
                 (appendNotEmpty ''filename'' filename
                   (appendNotEmpty ''filetype'' filetype (appendNotEmpty ''title'' title [])))"
    have "set (range_order env ?P) = set ?P"
      using assms by (metis set_mset_mset)
    then have "\<forall>(k, v)\<in>set (range_order env ?P). v \<noteq> []"
      using upload_params_values [of title filetype filename initialComment channels "token s"]
      by simp
    then have "\<exists>c. errChan_recv (producer env filename ?P data) = Some c"
      by (rule producer_reports)
    then have "\<exists>c. errChan_recv (producer env filename
                 (appendNotEmpty ''token'' (token s) ?Q) data) = Some c"
      unfolding upload_params .
    then obtain e where
      "ret (doUpload env s ''files.upload'' filename ?Q data (Some zero_response)) = Returned e"
      using doUpload_returns by blast
    then obtain r where
      "fst (Upload env s title filetype filename initialComment channels data)
         = Returned (case e of Some err \<Rightarrow> (None, Some err) | None \<Rightarrow> (Some r, None))"
      using Upload_ret [OF False] by blast
    then show ?thesis by (cases e) auto
  qed
  show ?thesis
    using up call_do_one
    unfolding ChannelCreate_def ChannelInfo_def ChannelList_def ChannelArchive_def
      GroupCreate_def GroupInvite_def GroupList_def FileList_def FileInfo_def
      FileAddComment_def Let_def
    by blast
qed

theorem exactly_one_non_nil_witness:
  "fst (Upload (quiet_env (answer_200 ''{}'') (decode_to file_ok)) api ''report'' ''text''
          ''report.txt'' [] [''C123''] hello) = Returned (Some file_ok, None)
   \<and> fst (Upload (quiet_env (answer_200 ''{}'') (decode_to not_authed)) api ''report'' ''text''
          ''report.txt'' [] [''C123''] hello) = Returned (None, Some (ResponseError not_authed))
   \<and> ChannelCreate (do_answer (Some (GoError ''name_taken''))) ''general''
       = (None, Some (GoError ''name_taken'' :: unit error))
   \<and> ChannelCreate (do_answer None) ''general'' = (Some (zero_response :: unit response), None)
   \<and> (\<exists>r e. fst (Upload (quiet_env (answer_200 ''{}'') (decode_to file_ok)) api ''report''
                   ''text'' ''report.txt'' [] [''C123''] hello) = Returned (r, e)
              \<and> (r = None \<longleftrightarrow> e \<noteq> None))"
proof -
  have h: "\<forall>ps. mset (range_order (quiet_env (answer_200 ''{}'') (decode_to file_ok)) ps) = mset ps"
    by (simp add: quiet_env_def)
  have a: "fst (Upload (quiet_env (answer_200 ''{}'') (decode_to file_ok)) api ''report'' ''text''
          ''report.txt'' [] [''C123''] hello) = Returned (Some file_ok, None)"
    by (simp add: Upload_def doUpload_def producer_def quiet_env_def io_Copy_def hello_def
          api_def Let_def appendNotEmpty_def Values_Add_def Values_Set_def body_of_def
          FormDataContentType_def answer_200_def decode_to_def IsOK_def file_ok_def)
  have b: "fst (Upload (quiet_env (answer_200 ''{}'') (decode_to not_authed)) api ''report'' ''text''
          ''report.txt'' [] [''C123''] hello) = Returned (None, Some (ResponseError not_authed))"
    by (simp add: Upload_def doUpload_def producer_def quiet_env_def io_Copy_def hello_def
          api_def Let_def appendNotEmpty_def Values_Add_def Values_Set_def body_of_def
          FormDataContentType_def answer_200_def decode_to_def IsOK_def not_authed_def)
  have c: "ChannelCreate (do_answer (Some (GoError ''name_taken''))) ''general''
       = (None, Some (GoError ''name_taken'' :: unit error))"
    by (simp add: ChannelCreate_def call_do_def do_answer_def)
  have d: "ChannelCreate (do_answer None) ''general'' = (Some (zero_response :: unit response), None)"
    by (simp add: ChannelCreate_def call_do_def do_answer_def)
  show ?thesis
    using a b c d
      exactly_one_non_nil [OF h, of api "''report''" "''text''" "''report.txt''" "[]"
        "[''C123'']" hello]
    by blast
qed

section \<open>Mark\<close>

text \<open>
  C8: a call to \<open>Mark\<close> with the empty channel string evaluates \<open>channel[0:1]\<close> with no
  length check and panics with "slice bounds out of range"; it returns no error value,
  whatever the generic call would have done.
\<close>

theorem Mark_empty_channel_panics:
  "Mark do [] ts = Panicked ''slice bounds out of range''"
  by (simp add: Mark_def slice01_def)

end
